theory Spec2Isabelle
  imports Complex_Main
begin

section \<open>Values exchanged with the backend and with tools\<close>

text \<open>
  Decoded JSON, as Python holds it: \<open>None\<close>, \<open>bool\<close>, \<open>int\<close>, \<open>float\<close> (a finite
  double, by its exact rational value), \<open>str\<close>, \<open>list\<close> and \<open>dict\<close>. A \<open>dict\<close> is an
  association list in insertion order; \<open>d.get(k)\<close> is \<open>map_of d k\<close>. One \<open>char\<close>
  stands for one code point of a Python \<open>str\<close>.
\<close>

datatype json =
    JNull
  | JBool bool
  | JInt int
  | JFloat rat
  | JStr string
  | JList "json list"
  | JObj "(string \<times> json) list"

type_synonym dict = "(string \<times> json) list"



section \<open>Strings\<close>

text \<open>\<open>sep.join(parts)\<close>.\<close>

fun join :: "string \<Rightarrow> string list \<Rightarrow> string" where
  "join sep [] = []"
| "join sep [p] = p"
| "join sep (p # q # ps) = p @ sep @ join sep (q # ps)"

fun starts_with :: "string \<Rightarrow> string \<Rightarrow> bool" where
  "starts_with text [] = True"
| "starts_with [] (p # ps) = False"
| "starts_with (c # cs) (p # ps) = (c = p \<and> starts_with cs ps)"

text \<open>\<open>needle in text\<close>.\<close>

fun contains :: "string \<Rightarrow> string \<Rightarrow> bool" where
  "contains [] needle = (needle = [])"
| "contains (c # cs) needle = (starts_with (c # cs) needle \<or> contains cs needle)"

text \<open>
  \<open>str.lower()\<close> on the letters A to Z; the other code points below 256 that Python
  lowercases (accented capitals) are left as they are, and none of them occurs in the
  phrases the client looks for.
\<close>

definition lower_char :: "char \<Rightarrow> char" where
  "lower_char c =
     (case map_of (zip ''ABCDEFGHIJKLMNOPQRSTUVWXYZ'' ''abcdefghijklmnopqrstuvwxyz'') c of
        Some l \<Rightarrow> l
      | None \<Rightarrow> c)"

definition lower :: "string \<Rightarrow> string" where
  "lower text = map lower_char text"

text \<open>\<open>str.isspace\<close> on the code points below 256, and \<open>str.strip()\<close>.\<close>

definition is_space :: "char \<Rightarrow> bool" where
  "is_space c =
     (let n = (of_char c :: nat) in
      (9 \<le> n \<and> n \<le> 13) \<or> (28 \<le> n \<and> n \<le> 32) \<or> n = 133 \<or> n = 160)"

definition strip :: "string \<Rightarrow> string" where
  "strip text = rev (dropWhile is_space (rev (dropWhile is_space text)))"

text \<open>The decimal rendering of a counter inside an f-string.\<close>

fun str_nat :: "nat \<Rightarrow> string" where
  "str_nat n =
     (if n < 10 then [''0123456789'' ! n] else str_nat (n div 10) @ [''0123456789'' ! (n mod 10)])"

declare str_nat.simps [simp del]

definition str_int :: "int \<Rightarrow> string" where
  "str_int i = (if i < 0 then ''-'' @ str_nat (nat (- i)) else str_nat (nat i))"

subsection \<open>\<open>repr\<close>\<close>

text \<open>
  \<open>repr\<close> of a string: double quotes when the string holds a single quote and no
  double quote, single quotes otherwise; the quote in use and the backslash are
  escaped, tab, newline and carriage return are written with their letters, and every
  other code point that is not printable as \<open>\xhh\<close>. Below 256 the printable code
  points are 32 to 126 and 161 to 255 without 173.
\<close>

definition printable :: "char \<Rightarrow> bool" where
  "printable c =
     (let n = (of_char c :: nat) in (32 \<le> n \<and> n \<le> 126) \<or> (161 \<le> n \<and> n \<noteq> 173))"

definition escape_char :: "char \<Rightarrow> char \<Rightarrow> string" where
  "escape_char quote c =
     (if c = quote \<or> c = CHR 0x5C then [CHR 0x5C, c]
      else if c = CHR 0x09 then [CHR 0x5C, CHR ''t'']
      else if c = CHR 0x0A then [CHR 0x5C, CHR ''n'']
      else if c = CHR 0x0D then [CHR 0x5C, CHR ''r'']
      else if printable c then [c]
      else [CHR 0x5C, CHR ''x'',
            ''0123456789abcdef'' ! ((of_char c :: nat) div 16),
            ''0123456789abcdef'' ! ((of_char c :: nat) mod 16)])"

definition repr_str :: "string \<Rightarrow> string" where
  "repr_str s =
     (let quote = (if CHR 0x27 \<in> set s \<and> CHR 0x22 \<notin> set s then CHR 0x22 else CHR 0x27)
      in [quote] @ concat (map (escape_char quote) s) @ [quote])"

text \<open>
  \<open>repr\<close> of a decoded JSON value. The digits of a float are the interpreter's own
  (the shortest that read back to the same double) and are a parameter.
\<close>

fun py_repr :: "(rat \<Rightarrow> string) \<Rightarrow> json \<Rightarrow> string" where
  "py_repr repr_float JNull = ''None''"
| "py_repr repr_float (JBool b) = (if b then ''True'' else ''False'')"
| "py_repr repr_float (JInt i) = str_int i"
| "py_repr repr_float (JFloat q) = repr_float q"
| "py_repr repr_float (JStr s) = repr_str s"
| "py_repr repr_float (JList items) =
     ''['' @ join '', '' (map (py_repr repr_float) items) @ '']''"
| "py_repr repr_float (JObj members) =
     ''{'' @ join '', '' (map (\<lambda>member. repr_str (fst member) @ '': ''
                                          @ py_repr repr_float (snd member)) members)
     @ ''}''"

section \<open>The message model\<close>

text \<open>
  Modelled from the spec: the records of \<open>mini_agent.schema\<close> (\<open>Message\<close>, \<open>ToolCall\<close>,
  \<open>FunctionCall\<close>, \<open>LLMResponse\<close>) and the tools' \<open>ToolResult\<close> are not among the source
  files. Section 3 of the specification gives their fields: a role out of four, content
  that is text or structured blocks, optional thinking text, an optional list of tool
  calls, an optional correlation id and tool name; a tool call with an identifier, a tool
  name and an argument mapping; a result with a success flag, content and error.
\<close>

datatype role = System | User | Assistant | Tool

datatype content = Text string | Blocks "json list"

record function_call =
  fc_name :: string
  fc_arguments :: dict

record tool_call =
  tc_id :: string
  tc_type :: string
  tc_function :: function_call

record message =
  msg_role :: role
  msg_content :: content
  msg_thinking :: "string option"
  msg_tool_calls :: "tool_call list option"
  msg_tool_call_id :: "string option"
  msg_name :: "string option"

record llm_response =
  resp_content :: string
  resp_thinking :: "string option"
  resp_tool_calls :: "tool_call list option"
  finish_reason :: string

record tool_result =
  success :: bool
  result_content :: string
  result_error :: "string option"

text \<open>\<open>Message(role=..., content=...)\<close> with the other fields at their default \<open>None\<close>.\<close>

definition Message :: "role \<Rightarrow> content \<Rightarrow> message" where
  "Message r c =
     \<lparr>msg_role = r, msg_content = c, msg_thinking = None, msg_tool_calls = None,
      msg_tool_call_id = None, msg_name = None\<rparr>"

definition ToolCall :: "string \<Rightarrow> string \<Rightarrow> dict \<Rightarrow> tool_call" where
  "ToolCall i n args =
     \<lparr>tc_id = i, tc_type = ''function'',
      tc_function = \<lparr>fc_name = n, fc_arguments = args\<rparr>\<rparr>"

text \<open>Python truthiness of the optional and the text-or-blocks fields.\<close>

fun truthy_content :: "content \<Rightarrow> bool" where
  "truthy_content (Text s) = (s \<noteq> [])"
| "truthy_content (Blocks bs) = (bs \<noteq> [])"

fun truthy_text :: "string option \<Rightarrow> bool" where
  "truthy_text None = False"
| "truthy_text (Some s) = (s \<noteq> [])"

fun truthy_list :: "'a list option \<Rightarrow> bool" where
  "truthy_list None = False"
| "truthy_list (Some xs) = (xs \<noteq> [])"

fun content_json :: "content \<Rightarrow> json" where
  "content_json (Text s) = JStr s"
| "content_json (Blocks bs) = JList bs"

section \<open>The model client (llm.py)\<close>

record llm_client =
  model :: string
  offline :: bool
  fake_call_counter :: nat

text \<open>
  What a call can raise. The two API errors carry the values that the source formats
  into the exception text; \<open>Raised\<close> is any other \<open>Exception\<close>, by its text, and
  \<open>BaseRaised\<close> an exception that is no \<open>Exception\<close> (\<open>asyncio.CancelledError\<close>,
  \<open>KeyboardInterrupt\<close>, \<open>SystemExit\<close>), which \<open>except Exception\<close> does not catch.
\<close>

datatype hint = NoHint | InsufficientBalance | ModelNotSupported string

datatype error =
    ApiError json json
  | MiniMaxError json json hint
  | AttributeError
  | TypeError
  | ValidationError
  | Raised string
  | BaseRaised string

fun uncaught :: "error \<Rightarrow> string option" where
  "uncaught (BaseRaised t) = Some t"
| "uncaught _ = None"

subsection \<open>The checks of \<open>_make_api_request\<close>\<close>





subsection \<open>From the conversation to the request\<close>

definition tool_use_block :: "tool_call \<Rightarrow> json" where
  "tool_use_block tc =
     JObj [(''type'', JStr ''tool_use''),
           (''id'', JStr (tc_id tc)),
           (''name'', JStr (fc_name (tc_function tc))),
           (''input'', JObj (fc_arguments (tc_function tc)))]"

text \<open>Lines 110 to 130: the content blocks of an assistant message.\<close>

definition assistant_blocks :: "message \<Rightarrow> json list" where
  "assistant_blocks msg =
     (case msg_thinking msg of
        Some t \<Rightarrow>
          if t \<noteq> [] then [JObj [(''type'', JStr ''thinking''), (''thinking'', JStr t)]] else []
      | None \<Rightarrow> [])
     @ (if truthy_content (msg_content msg)
        then [JObj [(''type'', JStr ''text''), (''text'', content_json (msg_content msg))]]
        else [])
     @ (case msg_tool_calls msg of
          Some calls \<Rightarrow> map tool_use_block calls
        | None \<Rightarrow> [])"

fun role_str :: "role \<Rightarrow> string" where
  "role_str System = ''system''"
| "role_str User = ''user''"
| "role_str Assistant = ''assistant''"
| "role_str Tool = ''tool''"

fun opt_str :: "string option \<Rightarrow> json" where
  "opt_str None = JNull"
| "opt_str (Some s) = JStr s"

text \<open>One iteration of the loop of lines 100 to 150, for a message that is not a system message.\<close>

definition api_message :: "message \<Rightarrow> json" where
  "api_message msg =
     (if msg_role msg = Tool then
        JObj [(''role'', JStr ''user''),
              (''content'', JList [JObj [(''type'', JStr ''tool_result''),
                                         (''tool_use_id'', opt_str (msg_tool_call_id msg)),
                                         (''content'', content_json (msg_content msg))]])]
      else if msg_role msg = Assistant
              \<and> (truthy_text (msg_thinking msg) \<or> truthy_list (msg_tool_calls msg)) then
        JObj [(''role'', JStr ''assistant''), (''content'', JList (assistant_blocks msg))]
      else
        JObj [(''role'', JStr (role_str (msg_role msg))),
              (''content'', content_json (msg_content msg))])"

fun convert_messages ::
  "message list \<Rightarrow> content option \<Rightarrow> json list \<Rightarrow> content option \<times> json list" where
  "convert_messages [] system_message api_messages = (system_message, api_messages)"
| "convert_messages (msg # msgs) system_message api_messages =
     (if msg_role msg = System
      then convert_messages msgs (Some (msg_content msg)) api_messages
      else convert_messages msgs system_message (api_messages @ [api_message msg]))"

definition build_payload :: "llm_client \<Rightarrow> message list \<Rightarrow> json list option \<Rightarrow> json" where
  "build_payload client messages tools =
     (case convert_messages messages None [] of
        (system_message, api_messages) \<Rightarrow>
          JObj ([(''model'', JStr (model client)),
                 (''messages'', JList api_messages),
                 (''max_tokens'', JInt 16384)]
                @ (case system_message of
                     Some s \<Rightarrow> if truthy_content s then [(''system'', content_json s)] else []
                   | None \<Rightarrow> [])
                @ (case tools of
                     Some ts \<Rightarrow> if ts \<noteq> [] then [(''tools'', JList ts)] else []
                   | None \<Rightarrow> [])))"

subsection \<open>From the response to \<open>LLMResponse\<close>\<close>

text \<open>
  \<open>for block in content_blocks\<close>: a list gives its items, a dict its keys, a string its
  characters; anything else is not iterable.
\<close>

fun iterate :: "json \<Rightarrow> error + json list" where
  "iterate (JList bs) = Inr bs"
| "iterate (JObj members) = Inr (map (\<lambda>kv. JStr (fst kv)) members)"
| "iterate (JStr s) = Inr (map (\<lambda>c. JStr [c]) s)"
| "iterate _ = Inl TypeError"

text \<open>\<open>text_content += block.get(key, "")\<close>: only a \<open>str\<close> can be added to a \<open>str\<close>.\<close>

definition add_text :: "string \<Rightarrow> dict \<Rightarrow> string \<Rightarrow> error + string" where
  "add_text acc block key =
     (case map_of block key of
        None \<Rightarrow> Inr acc
      | Some (JStr s) \<Rightarrow> Inr (acc @ s)
      | Some _ \<Rightarrow> Inl TypeError)"

text \<open>
  Modelled from the spec: the constructors of \<open>ToolCall\<close> and \<open>FunctionCall\<close> are not
  among the source files; the specification types the identifier and the tool name as
  text and the arguments as a mapping, so a block whose members have another type is
  refused.
\<close>

definition parse_tool_use :: "dict \<Rightarrow> error + tool_call" where
  "parse_tool_use block =
     (case (map_of block ''id'', map_of block ''name'',
            (case map_of block ''input'' of Some v \<Rightarrow> v | None \<Rightarrow> JObj [])) of
        (Some (JStr i), Some (JStr n), JObj args) \<Rightarrow> Inr (ToolCall i n args)
      | _ \<Rightarrow> Inl ValidationError)"

text \<open>The loop of lines 186 to 202, with its three accumulators.\<close>

fun parse_blocks ::
  "json list \<Rightarrow> string \<Rightarrow> string \<Rightarrow> tool_call list \<Rightarrow> error + (string \<times> string \<times> tool_call list)" where
  "parse_blocks [] text_content thinking_content tool_calls =
     Inr (text_content, thinking_content, tool_calls)"
| "parse_blocks (JObj block # blocks) text_content thinking_content tool_calls =
     (if map_of block ''type'' = Some (JStr ''text'') then
        (case add_text text_content block ''text'' of
           Inl e \<Rightarrow> Inl e
         | Inr t \<Rightarrow> parse_blocks blocks t thinking_content tool_calls)
      else if map_of block ''type'' = Some (JStr ''thinking'') then
        (case add_text thinking_content block ''thinking'' of
           Inl e \<Rightarrow> Inl e
         | Inr t \<Rightarrow> parse_blocks blocks text_content t tool_calls)
      else if map_of block ''type'' = Some (JStr ''tool_use'') then
        (case parse_tool_use block of
           Inl e \<Rightarrow> Inl e
         | Inr tc \<Rightarrow> parse_blocks blocks text_content thinking_content (tool_calls @ [tc]))
      else parse_blocks blocks text_content thinking_content tool_calls)"
| "parse_blocks (_ # blocks) text_content thinking_content tool_calls = Inl AttributeError"

text \<open>
  Lines 177 to 209. Modelled from the spec: \<open>LLMResponse\<close> is not among the source
  files; its finish signal is text.
\<close>

definition parse_response :: "json \<Rightarrow> error + llm_response" where
  "parse_response result =
     (case result of
        JObj members \<Rightarrow>
          (case iterate (case map_of members ''content'' of Some v \<Rightarrow> v | None \<Rightarrow> JList []) of
             Inl e \<Rightarrow> Inl e
           | Inr content_blocks \<Rightarrow>
               (case parse_blocks content_blocks [] [] [] of
                  Inl e \<Rightarrow> Inl e
                | Inr (text_content, thinking_content, tool_calls) \<Rightarrow>
                    (case (case map_of members ''stop_reason'' of
                             Some v \<Rightarrow> v | None \<Rightarrow> JStr ''stop'') of
                       JStr stop_reason \<Rightarrow>
                         Inr \<lparr>resp_content = text_content,
                              resp_thinking =
                                (if thinking_content \<noteq> [] then Some thinking_content else None),
                              resp_tool_calls =
                                (if tool_calls \<noteq> [] then Some tool_calls else None),
                              finish_reason = stop_reason\<rparr>
                     | _ \<Rightarrow> Inl ValidationError)))
      | _ \<Rightarrow> Inl AttributeError)"

subsection \<open>The segments the specification asks for\<close>


subsection \<open>The offline substitute\<close>

text \<open>\<open>last_user_text\<close>: the newest user message whose content is a string.\<close>

fun last_user_text_rev :: "message list \<Rightarrow> string" where
  "last_user_text_rev [] = []"
| "last_user_text_rev (msg # msgs) =
     (case msg_content msg of
        Text s \<Rightarrow> if msg_role msg = User then s else last_user_text_rev msgs
      | Blocks _ \<Rightarrow> last_user_text_rev msgs)"

definition last_user_text :: "message list \<Rightarrow> string" where
  "last_user_text messages = last_user_text_rev (rev messages)"

definition has_tool_result :: "message list \<Rightarrow> string \<Rightarrow> bool" where
  "has_tool_result messages name =
     list_ex (\<lambda>msg. msg_role msg = Tool \<and> msg_name msg = Some name) messages"

text \<open>The inner \<open>tool_call\<close>: the counter is incremented, then used in the id.\<close>

definition stub_tool_call :: "llm_client \<Rightarrow> string \<Rightarrow> dict \<Rightarrow> tool_call list \<times> llm_client" where
  "stub_tool_call client name arguments =
     (let client' = client\<lparr>fake_call_counter := fake_call_counter client + 1\<rparr>
      in ([ToolCall (''stub-'' @ str_nat (fake_call_counter client')) name arguments], client'))"

definition stop_response :: "string \<Rightarrow> llm_response" where
  "stop_response text =
     \<lparr>resp_content = text, resp_thinking = None, resp_tool_calls = None,
      finish_reason = ''stop''\<rparr>"

definition tool_use_response :: "tool_call list \<Rightarrow> llm_response" where
  "tool_use_response calls =
     \<lparr>resp_content = [], resp_thinking = None, resp_tool_calls = Some calls,
      finish_reason = ''tool_use''\<rparr>"

definition calculator_arguments :: dict where
  "calculator_arguments = [(''operation'', JStr ''add''), (''a'', JInt 123), (''b'', JInt 456)]"

definition fake_response ::
  "llm_client \<Rightarrow> message list \<Rightarrow> json list option \<Rightarrow> llm_response \<times> llm_client" where
  "fake_response client messages tools =
     (let text = lower (last_user_text messages) in
      if contains text (''say '' @ [CHR 0x27] @ ''hello, mini agent!'' @ [CHR 0x27])
         \<or> contains text ''hello, mini agent''
      then (stop_response ''Hello, Mini Agent!'', client)
      else if contains text ''calculate 123 + 456'' \<and> truthy_list tools
      then (case stub_tool_call client ''calculator'' calculator_arguments of
              (calls, client') \<Rightarrow> (tool_use_response calls, client'))
      else if contains text ''test.txt'' \<and> contains text ''hello from agent''
      then (if has_tool_result messages ''write_file''
            then (stop_response ''Created test.txt with the requested content.'', client)
            else (case stub_tool_call client ''write_file''
                         [(''path'', JStr ''test.txt''), (''content'', JStr ''Hello from Agent!'')] of
                    (calls, client') \<Rightarrow> (tool_use_response calls, client')))
      else if contains text ''list all files'' \<and> contains text ''bash''
      then (if has_tool_result messages ''bash''
            then (stop_response ''Listed the files in the workspace.'', client)
            else (case stub_tool_call client ''bash''
                         [(''command'', JStr ''ls''), (''timeout'', JInt 30),
                          (''run_in_background'', JBool False)] of
                    (calls, client') \<Rightarrow> (tool_use_response calls, client')))
      else (let fallback = (if last_user_text messages \<noteq> [] then last_user_text messages
                            else ''Hello!'')
            in (stop_response (''Stub response: '' @ strip fallback), client)))"

subsection \<open>\<open>generate\<close>\<close>

text \<open>
  \<open>api_call\<close> is \<open>_make_api_request\<close>, wrapped by the retry decorator when retries are
  enabled (the retry module is not among the source files).
\<close>

definition generate ::
  "(json \<Rightarrow> 'n \<Rightarrow> (error + json) \<times> 'n) \<Rightarrow> message list \<Rightarrow> json list option
     \<Rightarrow> llm_client \<times> 'n \<Rightarrow> (error + llm_response) \<times> llm_client \<times> 'n" where
  "generate api_call messages tools st =
     (case st of (client, net) \<Rightarrow>
        if offline client then
          (case fake_response client messages tools of
             (response, client') \<Rightarrow> (Inr response, client', net))
        else
          (case api_call (build_payload client messages tools) net of
             (Inl e, net') \<Rightarrow> (Inl e, client, net')
           | (Inr result, net') \<Rightarrow> (parse_response result, client, net')))"

section \<open>The ACP bridge (acp/__init__.py)\<close>

text \<open>
  A prompt's content blocks: \<open>acp_to_text\<close> reads the \<open>text\<close> member or attribute of
  each block and takes the empty string where there is none.
\<close>

datatype prompt_block = TextBlock string | OtherBlock

fun block_text :: "prompt_block \<Rightarrow> string" where
  "block_text (TextBlock t) = t"
| "block_text OtherBlock = []"

definition acp_to_text :: "prompt_block list \<Rightarrow> string" where
  "acp_to_text blocks = join [CHR 0x0A] (map block_text blocks)"

subsection \<open>\<open>_format_tool_args\<close>\<close>

text \<open>
  \<open>repr\<close> is the interpreter's rendering of a value and is a parameter here. The loop
  appends one part per item and stops at the third.
\<close>

definition shorten :: "string \<Rightarrow> string" where
  "shorten text = (if length text > 48 then take 45 text @ ''...'' else text)"

definition format_arg :: "(json \<Rightarrow> string) \<Rightarrow> string \<times> json \<Rightarrow> string" where
  "format_arg repr item = fst item @ ''='' @ shorten (repr (snd item))"

fun format_parts :: "(json \<Rightarrow> string) \<Rightarrow> dict \<Rightarrow> string list \<Rightarrow> string list" where
  "format_parts repr [] parts = parts"
| "format_parts repr (item # items) parts =
     (let parts' = parts @ [format_arg repr item]
      in if length parts' = 3 then parts' else format_parts repr items parts')"

definition format_tool_args :: "(json \<Rightarrow> string) \<Rightarrow> dict \<Rightarrow> string" where
  "format_tool_args repr args =
     (if args = [] then [] else join '', '' (format_parts repr args []))"

subsection \<open>Sessions, the environment and the record of what the bridge did\<close>

datatype stop_reason = EndTurn | Refusal | Cancelled | MaxTurnRequests

datatype tool_status = Completed | Failed

text \<open>The session updates sent to the client.\<close>

datatype update =
    AgentThought string
  | AgentMessage string
  | ToolCallStart string string dict
  | ToolCallUpdate string tool_status string

text \<open>
  The calls the bridge makes on its collaborators, in the order it makes them: the model
  call with the conversation and the schemas it passes, a tool's \<open>execute\<close> with the tool
  name and the arguments, and \<open>sessionUpdate\<close> with a session id and an update.
\<close>

datatype action =
    Generate "message list" "json list"
  | Execute string dict
  | Sent string update

text \<open>
  What \<open>execute\<close> can do: return a result, raise an \<open>Exception\<close> (with its text), or
  raise an exception that is no \<open>Exception\<close>, which line 178 does not catch.
\<close>

datatype tool_outcome =
    Returns tool_result
  | RaisesException string
  | RaisesBaseException string

text \<open>
  A tool: its schema and its \<open>execute\<close>, which acts on the world outside the bridge
  (\<open>'w\<close>).
\<close>

record 'w tool =
  to_schema :: json
  execute :: "dict \<Rightarrow> 'w \<Rightarrow> tool_outcome \<times> 'w"

text \<open>
  \<open>SessionState\<close> with the fields of its agent that the bridge uses. The \<open>tools\<close> dict is
  an association list in insertion order. \<open>mcp_connections\<close> is not read by any function
  modelled here.
\<close>

record 'w session_state =
  messages :: "message list"
  tools :: "(string \<times> 'w tool) list"
  max_steps :: nat
  cancelled :: bool

text \<open>
  \<open>MiniMaxACPAgent\<close>: the session map, the one model client that all sessions share, the
  world outside and the record of actions. Every session id maps to a \<open>SessionState\<close> of
  its own (\<open>newSession\<close> builds a new agent for each), so the map holds values.
\<close>

record 'w acp_agent =
  sessions :: "string \<rightharpoonup> 'w session_state"
  llm :: llm_client
  world :: 'w
  trace :: "action list"

text \<open>
  What the bridge is given: the request method of the client; the connection's
  \<open>sessionUpdate\<close>, which gives the text of the exception when it raises; what the event
  loop does while the turn is suspended at an \<open>await\<close> (\<open>cancel_arrives sid w\<close> tells
  whether a cancel notification for the session was handled meanwhile); \<open>repr\<close>; and the
  text of an exception. A second prompt on a session whose turn is running is not
  modelled.
\<close>

record 'w env =
  api_call :: "json \<Rightarrow> 'w \<Rightarrow> (error + json) \<times> 'w"
  session_update :: "string \<Rightarrow> update \<Rightarrow> 'w \<Rightarrow> string option \<times> 'w"
  cancel_arrives :: "string \<Rightarrow> 'w \<Rightarrow> bool \<times> 'w"
  repr :: "json \<Rightarrow> string"
  exc_text :: "error \<Rightarrow> string"

type_synonym 'w config = "'w session_state \<times> 'w acp_agent"

text \<open>
  The exceptions that leave \<open>_run_turn\<close>: no statement of it handles a raise of
  \<open>sessionUpdate\<close>, and its two handlers catch \<open>Exception\<close> only.
\<close>

datatype raised = SendRaised string | ToolRaised string | ModelRaised string

text \<open>Statements in sequence: a raise skips what follows.\<close>

fun and_then ::
  "raised option \<times> 'c \<Rightarrow> ('c \<Rightarrow> raised option \<times> 'c) \<Rightarrow> raised option \<times> 'c" where
  "and_then (Some e, c) f = (Some e, c)"
| "and_then (None, c) f = f c"

fun suspend :: "'w env \<Rightarrow> string \<Rightarrow> 'w config \<Rightarrow> 'w config" where
  "suspend E sid (st, ag) =
     (case cancel_arrives E sid (world ag) of
        (c, w) \<Rightarrow> (st\<lparr>cancelled := cancelled st \<or> c\<rparr>, ag\<lparr>world := w\<rparr>))"

text \<open>\<open>_send\<close>.\<close>

fun send :: "'w env \<Rightarrow> string \<Rightarrow> update \<Rightarrow> 'w config \<Rightarrow> raised option \<times> 'w config" where
  "send E sid u (st, ag) =
     (case session_update E sid u (world ag) of
        (failure, w) \<Rightarrow>
          (map_option SendRaised failure,
           suspend E sid (st, ag\<lparr>world := w, trace := trace ag @ [Sent sid u]\<rparr>)))"

fun append_message :: "message \<Rightarrow> 'w config \<Rightarrow> 'w config" where
  "append_message msg (st, ag) = (st\<lparr>messages := messages st @ [msg]\<rparr>, ag)"

subsection \<open>\<open>_run_turn\<close>\<close>

definition tool_message :: "tool_call \<Rightarrow> string \<Rightarrow> message" where
  "tool_message call text =
     (Message Tool (Text text))
       \<lparr>msg_tool_call_id := Some (tc_id call), msg_name := Some (fc_name (tc_function call))\<rparr>"

text \<open>Lines 180 and 181: the finished update, then the tool message.\<close>

definition finish_call ::
  "'w env \<Rightarrow> string \<Rightarrow> tool_call \<Rightarrow> tool_status \<Rightarrow> string \<Rightarrow> 'w config
     \<Rightarrow> raised option \<times> 'w config" where
  "finish_call E sid call status text cfg =
     and_then (send E sid (ToolCallUpdate (tc_id call) status text) cfg)
       (\<lambda>cfg'. (None, append_message (tool_message call text) cfg'))"

text \<open>Lines 176 and 177.\<close>

definition result_text :: "tool_result \<Rightarrow> string" where
  "result_text result =
     (if success result then result_content result
      else (case result_error result of
              Some e \<Rightarrow> if e \<noteq> [] then e else ''Tool execution failed''
            | None \<Rightarrow> ''Tool execution failed''))"

text \<open>Lines 167 and 168.\<close>

definition call_label :: "'w env \<Rightarrow> tool_call \<Rightarrow> string" where
  "call_label E call =
     (let name = fc_name (tc_function call);
          arg_summary = format_tool_args (repr E) (fc_arguments (tc_function call))
      in if arg_summary \<noteq> [] then name @ ''('' @ arg_summary @ '')'' else name @ ''()'')"

text \<open>
  Lines 170 to 179, after the started update: the lookup, and \<open>execute\<close> inside the
  \<open>try\<close> whose handler catches \<open>Exception\<close>.
\<close>

definition dispatch ::
  "'w env \<Rightarrow> string \<Rightarrow> tool_call \<Rightarrow> 'w config \<Rightarrow> raised option \<times> 'w config" where
  "dispatch E sid call cfg =
     (let name = fc_name (tc_function call);
          args = fc_arguments (tc_function call)
      in case map_of (tools (fst cfg)) name of
           None \<Rightarrow> finish_call E sid call Failed (''Unknown tool: '' @ name) cfg
         | Some tool \<Rightarrow>
             (case execute tool args (world (snd cfg)) of
                (outcome, w) \<Rightarrow>
                  (let cfg' = suspend E sid
                                (fst cfg,
                                 (snd cfg)\<lparr>world := w,
                                           trace := trace (snd cfg) @ [Execute name args]\<rparr>)
                   in case outcome of
                        Returns result \<Rightarrow>
                          finish_call E sid call
                            (if success result then Completed else Failed)
                            (result_text result) cfg'
                      | RaisesException exc \<Rightarrow>
                          finish_call E sid call Failed (''Tool error: '' @ exc) cfg'
                      | RaisesBaseException exc \<Rightarrow> (Some (ToolRaised exc), cfg'))))"

text \<open>The body of the loop over the tool calls, lines 166 to 181.\<close>

definition run_call ::
  "'w env \<Rightarrow> string \<Rightarrow> tool_call \<Rightarrow> 'w config \<Rightarrow> raised option \<times> 'w config" where
  "run_call E sid call cfg =
     and_then (send E sid (ToolCallStart (tc_id call) (call_label E call)
                             (fc_arguments (tc_function call))) cfg)
       (dispatch E sid call)"

fun run_calls ::
  "'w env \<Rightarrow> string \<Rightarrow> tool_call list \<Rightarrow> 'w config \<Rightarrow> raised option \<times> 'w config" where
  "run_calls E sid [] cfg = (None, cfg)"
| "run_calls E sid (call # calls) cfg =
     (case run_call E sid call cfg of
        (Some e, cfg') \<Rightarrow> (Some e, cfg')
      | (None, cfg') \<Rightarrow> run_calls E sid calls cfg')"

definition assistant_message :: "llm_response \<Rightarrow> message" where
  "assistant_message response =
     (Message Assistant (Text (resp_content response)))
       \<lparr>msg_thinking := resp_thinking response, msg_tool_calls := resp_tool_calls response\<rparr>"

text \<open>Lines 158 to 162: the two updates and the assistant message.\<close>

definition emit_response ::
  "'w env \<Rightarrow> string \<Rightarrow> llm_response \<Rightarrow> 'w config \<Rightarrow> raised option \<times> 'w config" where
  "emit_response E sid response cfg =
     and_then
       (case resp_thinking response of
          Some t \<Rightarrow> if t \<noteq> [] then send E sid (AgentThought t) cfg else (None, cfg)
        | None \<Rightarrow> (None, cfg))
       (\<lambda>cfg1.
          and_then
            (if resp_content response \<noteq> []
             then send E sid (AgentMessage (resp_content response)) cfg1 else (None, cfg1))
            (\<lambda>cfg2. (None, append_message (assistant_message response) cfg2)))"

text \<open>
  The model call of line 151 with the suspension it is: the result, and the
  configuration once the turn resumes.
\<close>

definition call_model ::
  "'w env \<Rightarrow> string \<Rightarrow> 'w config \<Rightarrow> (error + llm_response) \<times> 'w config" where
  "call_model E sid cfg =
     (case cfg of
        (st, ag) \<Rightarrow>
          (let tool_schemas = map (\<lambda>entry. to_schema (snd entry)) (tools st)
           in case generate (api_call E) (messages st) (Some tool_schemas) (llm ag, world ag) of
                (r, client, w) \<Rightarrow>
                  (r, suspend E sid
                        (st, ag\<lparr>llm := client, world := w,
                                trace := trace ag @ [Generate (messages st) tool_schemas]\<rparr>))))"

text \<open>
  One iteration of the loop of line 146: it goes on to the next iteration, returns a
  stop reason, or is left by an exception.
\<close>

datatype flow = Continue | Return stop_reason | Raise raised

fun raises :: "flow \<Rightarrow> bool" where
  "raises (Raise e) = True"
| "raises _ = False"

text \<open>What follows a list of statements that may raise.\<close>

fun after :: "raised option \<times> 'c \<Rightarrow> flow \<Rightarrow> flow \<times> 'c" where
  "after (Some e, c) next = (Raise e, c)"
| "after (None, c) next = (next, c)"

definition step :: "'w env \<Rightarrow> string \<Rightarrow> 'w config \<Rightarrow> flow \<times> 'w config" where
  "step E sid cfg =
     (if cancelled (fst cfg) then (Return Cancelled, cfg)
      else
        (case call_model E sid cfg of
           (Inl exc, cfg1) \<Rightarrow>
             (case uncaught exc of
                Some t \<Rightarrow> (Raise (ModelRaised t), cfg1)
              | None \<Rightarrow>
                  after (send E sid (AgentMessage (''Error: '' @ exc_text E exc)) cfg1)
                    (Return Refusal))
         | (Inr response, cfg1) \<Rightarrow>
             if cancelled (fst cfg1) then (Return Cancelled, cfg1)
             else
               (case resp_tool_calls response of
                  None \<Rightarrow> after (emit_response E sid response cfg1) (Return EndTurn)
                | Some calls \<Rightarrow>
                    if calls = []
                    then after (emit_response E sid response cfg1) (Return EndTurn)
                    else after (and_then (emit_response E sid response cfg1)
                                  (run_calls E sid calls))
                           Continue)))"

text \<open>\<open>for _ in range(agent.max_steps)\<close>, and the return after it.\<close>

fun run_steps ::
  "'w env \<Rightarrow> string \<Rightarrow> nat \<Rightarrow> 'w config \<Rightarrow> (raised + stop_reason) \<times> 'w config" where
  "run_steps E sid 0 cfg = (Inr MaxTurnRequests, cfg)"
| "run_steps E sid (Suc n) cfg =
     (case step E sid cfg of
        (Continue, cfg') \<Rightarrow> run_steps E sid n cfg'
      | (Return reason, cfg') \<Rightarrow> (Inr reason, cfg')
      | (Raise e, cfg') \<Rightarrow> (Inl e, cfg'))"

definition run_turn ::
  "'w env \<Rightarrow> string \<Rightarrow> 'w config \<Rightarrow> (raised + stop_reason) \<times> 'w config" where
  "run_turn E sid cfg = run_steps E sid (max_steps (fst cfg)) cfg"

subsection \<open>\<open>prompt\<close> and \<open>cancel\<close>\<close>

text \<open>
  \<open>prompt\<close> returns the stop reason of the turn, or is left by the exception that left
  the turn; the session keeps what the turn did to it.
\<close>

definition prompt ::
  "'w env \<Rightarrow> string \<Rightarrow> prompt_block list \<Rightarrow> 'w acp_agent
     \<Rightarrow> (raised + stop_reason) \<times> 'w acp_agent" where
  "prompt E sid blocks ag =
     (case sessions ag sid of
        None \<Rightarrow> (Inr Refusal, ag)
      | Some st \<Rightarrow>
          (let st1 = st\<lparr>cancelled := False\<rparr>;
               user_text = acp_to_text blocks;
               st2 = st1\<lparr>messages := messages st1 @ [Message User (Text user_text)]\<rparr>
           in case run_turn E sid (st2, ag) of
                (result, st', ag') \<Rightarrow> (result, ag'\<lparr>sessions := (sessions ag')(sid \<mapsto> st')\<rparr>)))"

definition cancel :: "string \<Rightarrow> 'w acp_agent \<Rightarrow> 'w acp_agent" where
  "cancel sid ag =
     (case sessions ag sid of
        None \<Rightarrow> ag
      | Some st \<Rightarrow> ag\<lparr>sessions := (sessions ag)(sid \<mapsto> st\<lparr>cancelled := True\<rparr>)\<rparr>)"

subsection \<open>Counting the model calls of a turn\<close>

fun is_generate :: "action \<Rightarrow> bool" where
  "is_generate (Generate msgs schemas) = True"
| "is_generate _ = False"

definition model_calls :: "action list \<Rightarrow> nat" where
  "model_calls tr = length (filter is_generate tr)"

text \<open>
  The next \<open>n\<close> iterations of the loop each find the flag clear at both checkpoints,
  each get a response with a non-empty list of tool calls, and none is left by an
  exception.
\<close>

fun every_step_calls_tools :: "'w env \<Rightarrow> string \<Rightarrow> nat \<Rightarrow> 'w config \<Rightarrow> bool" where
  "every_step_calls_tools E sid 0 cfg = True"
| "every_step_calls_tools E sid (Suc n) cfg =
     (\<not> cancelled (fst cfg)
      \<and> (case call_model E sid cfg of
            (Inl exc, cfg1) \<Rightarrow> False
          | (Inr response, cfg1) \<Rightarrow>
              \<not> cancelled (fst cfg1) \<and> truthy_list (resp_tool_calls response)
              \<and> \<not> raises (fst (step E sid cfg))
              \<and> every_step_calls_tools E sid n (snd (step E sid cfg))))"

subsection \<open>Collaborators that do not make the turn raise\<close>

text \<open>A connection whose \<open>sessionUpdate\<close> never raises.\<close>

definition delivers :: "'w env \<Rightarrow> bool" where
  "delivers E = (\<forall>sid u w. fst (session_update E sid u w) = None)"

text \<open>A tool whose \<open>execute\<close> raises nothing but \<open>Exception\<close>s.\<close>

definition raises_exceptions_only :: "'w tool \<Rightarrow> bool" where
  "raises_exceptions_only tool =
     (\<forall>args w x. fst (execute tool args w) \<noteq> RaisesBaseException x)"

section \<open>Concrete scenarios\<close>

text \<open>
  A live and an offline client; a backend that answers every request with one tool call
  for each of the given tool names; a tool that succeeds, one that raises an \<open>Exception\<close>
  and one that raises an exception that is no \<open>Exception\<close>; two sessions.
\<close>

definition live_client :: llm_client where
  "live_client = \<lparr>model = ''MiniMax-M2'', offline = False, fake_call_counter = 0\<rparr>"

definition offline_client :: llm_client where
  "offline_client = \<lparr>model = ''MiniMax-M2'', offline = True, fake_call_counter = 0\<rparr>"

definition scripted_block :: "string \<Rightarrow> json" where
  "scripted_block name =
     JObj [(''type'', JStr ''tool_use''), (''id'', JStr (''call-'' @ name)),
           (''name'', JStr name), (''input'', JObj [(''a'', JInt 1)])]"

definition tool_use_body :: "string list \<Rightarrow> json" where
  "tool_use_body names =
     JObj [(''content'', JList (map scripted_block names)),
           (''stop_reason'', JStr ''tool_use'')]"

text \<open>
  The world of the scenarios counts the tool executions. Every update is delivered.
\<close>

definition scripted_env :: "bool \<Rightarrow> string list \<Rightarrow> nat env" where
  "scripted_env arrives names =
     \<lparr>api_call = (\<lambda>payload w. (Inr (tool_use_body names), w)),
      session_update = (\<lambda>sid u w. (None, w)),
      cancel_arrives = (\<lambda>sid w. (arrives, w)),
      repr = (\<lambda>v. ''?''),
      exc_text = (\<lambda>e. ''error'')\<rparr>"

definition calculator_tool :: "nat tool" where
  "calculator_tool =
     \<lparr>to_schema = JObj [(''name'', JStr ''calculator'')],
      execute = (\<lambda>args w. (Returns \<lparr>success = True, result_content = ''579'',
                                      result_error = None\<rparr>, Suc w))\<rparr>"

definition broken_tool :: "nat tool" where
  "broken_tool =
     \<lparr>to_schema = JObj [(''name'', JStr ''broken'')],
      execute = (\<lambda>args w. (RaisesException ''boom'', Suc w))\<rparr>"

definition interrupted_tool :: "nat tool" where
  "interrupted_tool =
     \<lparr>to_schema = JObj [(''name'', JStr ''interrupted'')],
      execute = (\<lambda>args w. (RaisesBaseException ''interrupted'', Suc w))\<rparr>"

definition demo_session :: "nat \<Rightarrow> nat session_state" where
  "demo_session n =
     \<lparr>messages = [],
      tools = [(''calculator'', calculator_tool), (''broken'', broken_tool)],
      max_steps = n, cancelled = False\<rparr>"

definition interrupted_session :: "nat \<Rightarrow> nat session_state" where
  "interrupted_session n =
     \<lparr>messages = [],
      tools = [(''calculator'', calculator_tool), (''interrupted'', interrupted_tool)],
      max_steps = n, cancelled = False\<rparr>"

definition demo_agent :: "llm_client \<Rightarrow> nat \<Rightarrow> nat acp_agent" where
  "demo_agent client n =
     \<lparr>sessions = [''sess-0'' \<mapsto> demo_session n, ''sess-1'' \<mapsto> interrupted_session n],
      llm = client, world = 0, trace = []\<rparr>"

text \<open>What the scripted backend's answer parses to.\<close>

definition demo_call :: "string \<Rightarrow> tool_call" where
  "demo_call name = ToolCall (''call-'' @ name) name [(''a'', JInt 1)]"

definition demo_response :: "string list \<Rightarrow> llm_response" where
  "demo_response names =
     \<lparr>resp_content = [], resp_thinking = None,
      resp_tool_calls = (if names = [] then None else Some (map demo_call names)),
      finish_reason = ''tool_use''\<rparr>"

definition demo_config :: "llm_client \<Rightarrow> nat \<Rightarrow> nat config" where
  "demo_config client n = (demo_session n, demo_agent client n)"

definition interrupted_config :: "llm_client \<Rightarrow> nat \<Rightarrow> nat config" where
  "interrupted_config client n = (interrupted_session n, demo_agent client n)"

text \<open>The scripted environment with the interpreter's \<open>repr\<close>, and a call with four arguments.\<close>

definition python_env :: "(rat \<Rightarrow> string) \<Rightarrow> nat env" where
  "python_env repr_float = (scripted_env False [''calculator''])\<lparr>repr := py_repr repr_float\<rparr>"

definition long_call :: tool_call where
  "long_call =
     ToolCall ''c1'' ''write_file''
       [(''path'', JStr ''notes/today.txt''),
        (''content'', JStr ''xxxxxxxxxxxxxxxxxxxxxxxxxxxxxxxxxxxxxxxxxxxxxxxxxx''),
        (''mode'', JInt (- 2)),
        (''backup'', JBool True)]"




text \<open>
  The configuration in which \<open>prompt\<close> starts the turn for the text
  \<open>calculate 123 + 456\<close> on the first session of the offline agent.
\<close>

definition calculator_prompt :: "nat \<Rightarrow> nat config" where
  "calculator_prompt n =
     ((demo_session n)
        \<lparr>cancelled := False,
         messages := messages (demo_session n) @ [Message User (Text ''calculate 123 + 456'')]\<rparr>,
      demo_agent offline_client n)"

section \<open>Sequencing\<close>

lemma and_then_fst:
  "fst (and_then r f) = (case fst r of Some e \<Rightarrow> Some e | None \<Rightarrow> fst (f (snd r)))"
  by (cases r; cases "fst r") auto

lemma and_then_snd:
  "snd (and_then r f) = (case fst r of Some e \<Rightarrow> snd r | None \<Rightarrow> snd (f (snd r)))"
  by (cases r; cases "fst r") auto

lemma after_fst:
  "fst (after r next) = (case fst r of Some e \<Rightarrow> Raise e | None \<Rightarrow> next)"
  by (cases r; cases "fst r") auto

lemma after_snd: "snd (after r next) = snd r"
  by (cases r; cases "fst r") auto

lemma run_calls_Cons:
  "run_calls E sid (call # calls) cfg = and_then (run_call E sid call cfg) (run_calls E sid calls)"
  by (cases "run_call E sid call cfg"; cases "fst (run_call E sid call cfg)") auto

section \<open>What the suspensions and the updates leave alone\<close>

lemma suspend_keeps:
  "messages (fst (suspend E sid cfg)) = messages (fst cfg)"
  "tools (fst (suspend E sid cfg)) = tools (fst cfg)"
  "max_steps (fst (suspend E sid cfg)) = max_steps (fst cfg)"
  "sessions (snd (suspend E sid cfg)) = sessions (snd cfg)"
  "llm (snd (suspend E sid cfg)) = llm (snd cfg)"
  "trace (snd (suspend E sid cfg)) = trace (snd cfg)"
  by (cases cfg; simp split: prod.splits)+

lemma send_keeps:
  "messages (fst (snd (send E sid u cfg))) = messages (fst cfg)"
  "tools (fst (snd (send E sid u cfg))) = tools (fst cfg)"
  "max_steps (fst (snd (send E sid u cfg))) = max_steps (fst cfg)"
  "sessions (snd (snd (send E sid u cfg))) = sessions (snd cfg)"
  "llm (snd (snd (send E sid u cfg))) = llm (snd cfg)"
  "trace (snd (snd (send E sid u cfg))) = trace (snd cfg) @ [Sent sid u]"
  by (cases cfg; simp add: case_prod_beta suspend_keeps)+

lemma append_message_keeps:
  "messages (fst (append_message m cfg)) = messages (fst cfg) @ [m]"
  "tools (fst (append_message m cfg)) = tools (fst cfg)"
  "max_steps (fst (append_message m cfg)) = max_steps (fst cfg)"
  "cancelled (fst (append_message m cfg)) = cancelled (fst cfg)"
  "snd (append_message m cfg) = snd cfg"
  by (cases cfg; simp)+

lemma finish_call_keeps:
  "tools (fst (snd (finish_call E sid call status t cfg))) = tools (fst cfg)"
  "max_steps (fst (snd (finish_call E sid call status t cfg))) = max_steps (fst cfg)"
  "sessions (snd (snd (finish_call E sid call status t cfg))) = sessions (snd cfg)"
  "llm (snd (snd (finish_call E sid call status t cfg))) = llm (snd cfg)"
  "trace (snd (snd (finish_call E sid call status t cfg)))
     = trace (snd cfg) @ [Sent sid (ToolCallUpdate (tc_id call) status t)]"
  by (simp_all add: finish_call_def and_then_snd send_keeps append_message_keeps
        split: option.splits)

lemma finish_call_messages:
  "messages (fst (snd (finish_call E sid call status t cfg)))
     = (if fst (finish_call E sid call status t cfg) = None
        then messages (fst cfg) @ [tool_message call t] else messages (fst cfg))"
  by (simp add: finish_call_def and_then_snd and_then_fst send_keeps append_message_keeps
        split: option.splits)

lemma dispatch_keeps:
  "tools (fst (snd (dispatch E sid call cfg))) = tools (fst cfg)"
  "max_steps (fst (snd (dispatch E sid call cfg))) = max_steps (fst cfg)"
  "sessions (snd (snd (dispatch E sid call cfg))) = sessions (snd cfg)"
  "llm (snd (snd (dispatch E sid call cfg))) = llm (snd cfg)"
  by (simp_all add: dispatch_def Let_def case_prod_beta finish_call_keeps suspend_keeps
        split: option.splits tool_outcome.splits)

lemma dispatch_messages:
  "\<exists>t. messages (fst (snd (dispatch E sid call cfg)))
         = (if fst (dispatch E sid call cfg) = None
            then messages (fst cfg) @ [tool_message call t] else messages (fst cfg))"
  by (auto simp: dispatch_def Let_def case_prod_beta finish_call_messages suspend_keeps
        split: option.splits tool_outcome.splits)

lemma run_call_keeps:
  "tools (fst (snd (run_call E sid call cfg))) = tools (fst cfg)"
  "max_steps (fst (snd (run_call E sid call cfg))) = max_steps (fst cfg)"
  "sessions (snd (snd (run_call E sid call cfg))) = sessions (snd cfg)"
  "llm (snd (snd (run_call E sid call cfg))) = llm (snd cfg)"
  by (simp_all add: run_call_def and_then_snd dispatch_keeps send_keeps split: option.splits)

lemma run_call_messages:
  "\<exists>t. messages (fst (snd (run_call E sid call cfg)))
         = (if fst (run_call E sid call cfg) = None
            then messages (fst cfg) @ [tool_message call t] else messages (fst cfg))"
proof (cases "fst (send E sid (ToolCallStart (tc_id call) (call_label E call)
                               (fc_arguments (tc_function call))) cfg)")
  case None
  then show ?thesis
    using dispatch_messages [of E sid call
            "snd (send E sid (ToolCallStart (tc_id call) (call_label E call)
                               (fc_arguments (tc_function call))) cfg)"]
    by (auto simp: run_call_def and_then_snd and_then_fst send_keeps)
next
  case (Some e)
  then show ?thesis
    by (simp add: run_call_def and_then_snd and_then_fst send_keeps)
qed

lemma run_calls_keeps:
  "tools (fst (snd (run_calls E sid calls cfg))) = tools (fst cfg)"
  "max_steps (fst (snd (run_calls E sid calls cfg))) = max_steps (fst cfg)"
  "sessions (snd (snd (run_calls E sid calls cfg))) = sessions (snd cfg)"
  "llm (snd (snd (run_calls E sid calls cfg))) = llm (snd cfg)"
  by (induction calls arbitrary: cfg;
      simp add: run_calls_Cons and_then_snd run_call_keeps del: run_calls.simps(2)
           split: option.splits)+

lemma run_calls_messages:
  "fst (run_calls E sid calls cfg) = None \<Longrightarrow>
   \<exists>texts. length texts = length calls
     \<and> messages (fst (snd (run_calls E sid calls cfg)))
         = messages (fst cfg) @ map2 tool_message calls texts"
proof (induction calls arbitrary: cfg)
  case Nil
  then show ?case by simp
next
  case (Cons call calls)
  let ?one = "run_call E sid call cfg"
  from Cons.prems have ok: "fst ?one = None" and
    rest_ok: "fst (run_calls E sid calls (snd ?one)) = None"
    by (auto simp: run_calls_Cons and_then_fst simp del: run_calls.simps(2) split: option.splits)
  obtain t where one: "messages (fst (snd ?one)) = messages (fst cfg) @ [tool_message call t]"
    using run_call_messages [of E sid call cfg] ok by auto
  obtain texts where len: "length texts = length calls" and
    rest: "messages (fst (snd (run_calls E sid calls (snd ?one))))
             = messages (fst (snd ?one)) @ map2 tool_message calls texts"
    using Cons.IH [OF rest_ok] by blast
  have whole: "snd (run_calls E sid (call # calls) cfg) = snd (run_calls E sid calls (snd ?one))"
    using ok by (simp add: run_calls_Cons and_then_snd del: run_calls.simps(2))
  have "length (t # texts) = length (call # calls)" using len by simp
  moreover have "messages (fst (snd (run_calls E sid (call # calls) cfg)))
                   = messages (fst cfg) @ map2 tool_message (call # calls) (t # texts)"
    using one rest whole by simp
  ultimately show ?case by blast
qed

lemma emit_response_keeps:
  "tools (fst (snd (emit_response E sid response cfg))) = tools (fst cfg)"
  "max_steps (fst (snd (emit_response E sid response cfg))) = max_steps (fst cfg)"
  "sessions (snd (snd (emit_response E sid response cfg))) = sessions (snd cfg)"
  "llm (snd (snd (emit_response E sid response cfg))) = llm (snd cfg)"
  by (simp_all add: emit_response_def and_then_snd send_keeps append_message_keeps
        split: option.splits)

lemma emit_response_messages:
  "messages (fst (snd (emit_response E sid response cfg)))
     = (if fst (emit_response E sid response cfg) = None
        then messages (fst cfg) @ [assistant_message response] else messages (fst cfg))"
  by (simp add: emit_response_def and_then_snd and_then_fst send_keeps append_message_keeps
        split: option.splits)

lemma call_model_keeps:
  "messages (fst (snd (call_model E sid cfg))) = messages (fst cfg)"
  "tools (fst (snd (call_model E sid cfg))) = tools (fst cfg)"
  "max_steps (fst (snd (call_model E sid cfg))) = max_steps (fst cfg)"
  "sessions (snd (snd (call_model E sid cfg))) = sessions (snd cfg)"
  "trace (snd (snd (call_model E sid cfg)))
     = trace (snd cfg)
       @ [Generate (messages (fst cfg)) (map (\<lambda>entry. to_schema (snd entry)) (tools (fst cfg)))]"
  by (simp_all add: call_model_def Let_def case_prod_beta suspend_keeps)

lemma step_sessions: "sessions (snd (snd (step E sid cfg))) = sessions (snd cfg)"
  by (simp add: step_def case_prod_beta after_snd and_then_snd call_model_keeps
        emit_response_keeps send_keeps run_calls_keeps
        split: sum.splits option.splits)

lemma run_steps_sessions: "sessions (snd (snd (run_steps E sid n cfg))) = sessions (snd cfg)"
proof (induction n arbitrary: cfg)
  case 0
  then show ?case by simp
next
  case (Suc n)
  show ?case
  proof (cases "fst (step E sid cfg)")
    case Continue
    then have "run_steps E sid (Suc n) cfg = run_steps E sid n (snd (step E sid cfg))"
      by (simp add: case_prod_beta)
    then show ?thesis using Suc.IH step_sessions by metis
  next
    case (Return reason)
    then have "run_steps E sid (Suc n) cfg = (Inr reason, snd (step E sid cfg))"
      by (simp add: case_prod_beta)
    then show ?thesis using step_sessions by (metis snd_conv)
  next
    case (Raise e)
    then have "run_steps E sid (Suc n) cfg = (Inl e, snd (step E sid cfg))"
      by (simp add: case_prod_beta)
    then show ?thesis using step_sessions by (metis snd_conv)
  qed
qed

section \<open>The model calls in the record of actions\<close>

lemma model_calls_append:
  "model_calls (tr @ [Generate msgs schemas]) = Suc (model_calls tr)"
  "model_calls (tr @ [Sent sid u]) = model_calls tr"
  "model_calls (tr @ [Execute name args]) = model_calls tr"
  by (simp_all add: model_calls_def)

lemma send_model_calls:
  "model_calls (trace (snd (snd (send E sid u cfg)))) = model_calls (trace (snd cfg))"
  by (simp add: send_keeps model_calls_append)

lemma finish_call_model_calls:
  "model_calls (trace (snd (snd (finish_call E sid call status t cfg))))
     = model_calls (trace (snd cfg))"
  by (simp add: finish_call_keeps model_calls_append)

lemma dispatch_model_calls:
  "model_calls (trace (snd (snd (dispatch E sid call cfg)))) = model_calls (trace (snd cfg))"
  by (simp add: dispatch_def Let_def case_prod_beta finish_call_model_calls suspend_keeps
        model_calls_append split: option.splits tool_outcome.splits)

lemma run_call_model_calls:
  "model_calls (trace (snd (snd (run_call E sid call cfg)))) = model_calls (trace (snd cfg))"
  by (simp add: run_call_def and_then_snd dispatch_model_calls send_model_calls
        split: option.splits)

lemma run_calls_model_calls:
  "model_calls (trace (snd (snd (run_calls E sid calls cfg)))) = model_calls (trace (snd cfg))"
  by (induction calls arbitrary: cfg)
     (simp_all add: run_calls_Cons and_then_snd run_call_model_calls del: run_calls.simps(2)
        split: option.splits)

lemma emit_response_model_calls:
  "model_calls (trace (snd (snd (emit_response E sid response cfg))))
     = model_calls (trace (snd cfg))"
  by (simp add: emit_response_def and_then_snd send_model_calls append_message_keeps
        split: option.splits)

section \<open>A step whose response carries tool calls\<close>

lemma step_with_calls:
  assumes "\<not> cancelled (fst cfg)"
    and "fst (call_model E sid cfg) = Inr response"
    and "\<not> cancelled (fst (snd (call_model E sid cfg)))"
    and "resp_tool_calls response = Some calls" and "calls \<noteq> []"
  shows "step E sid cfg
         = after (and_then (emit_response E sid response (snd (call_model E sid cfg)))
                    (run_calls E sid calls)) Continue"
  using assms by (simp add: step_def case_prod_beta split: sum.splits)

lemma step_with_calls_model_calls:
  assumes "\<not> cancelled (fst cfg)"
    and "fst (call_model E sid cfg) = Inr response"
    and "\<not> cancelled (fst (snd (call_model E sid cfg)))"
    and "resp_tool_calls response = Some calls" and "calls \<noteq> []"
  shows "model_calls (trace (snd (snd (step E sid cfg)))) = Suc (model_calls (trace (snd cfg)))"
  by (simp add: step_with_calls [OF assms] after_snd and_then_snd run_calls_model_calls
        emit_response_model_calls call_model_keeps model_calls_append split: option.splits)

lemma step_not_raising:
  assumes "\<not> cancelled (fst cfg)"
    and "fst (call_model E sid cfg) = Inr response"
    and "\<not> cancelled (fst (snd (call_model E sid cfg)))"
    and "resp_tool_calls response = Some calls" and "calls \<noteq> []"
    and "\<not> raises (fst (step E sid cfg))"
  shows "fst (emit_response E sid response (snd (call_model E sid cfg))) = None"
    and "fst (run_calls E sid calls
                (snd (emit_response E sid response (snd (call_model E sid cfg))))) = None"
    and "step E sid cfg
         = (Continue,
            snd (run_calls E sid calls
                   (snd (emit_response E sid response (snd (call_model E sid cfg))))))"
proof -
  let ?emit = "emit_response E sid response (snd (call_model E sid cfg))"
  have st: "step E sid cfg = after (and_then ?emit (run_calls E sid calls)) Continue"
    by (rule step_with_calls [OF assms(1-5)])
  have none: "fst (and_then ?emit (run_calls E sid calls)) = None"
    using assms(6) by (cases "fst (and_then ?emit (run_calls E sid calls))")
                       (simp_all add: st after_fst)
  show e: "fst ?emit = None"
    using none by (cases "fst ?emit") (simp_all add: and_then_fst)
  show r: "fst (run_calls E sid calls (snd ?emit)) = None"
    using none e by (simp add: and_then_fst)
  show "step E sid cfg = (Continue, snd (run_calls E sid calls (snd ?emit)))"
    using none e by (simp add: st prod_eq_iff after_fst after_snd and_then_snd)
qed

lemma tool_message_fields:
  "length texts = length calls \<Longrightarrow>
   map (\<lambda>m. (msg_role m, msg_tool_call_id m, msg_name m)) (map2 tool_message calls texts)
     = map (\<lambda>c. (Tool, Some (tc_id c), Some (fc_name (tc_function c)))) calls"
  by (induction texts calls rule: list_induct2) (simp_all add: tool_message_def Message_def)

lemma run_steps_busy:
  "every_step_calls_tools E sid n cfg \<Longrightarrow>
   fst (run_steps E sid n cfg) = Inr MaxTurnRequests
   \<and> model_calls (trace (snd (snd (run_steps E sid n cfg)))) = model_calls (trace (snd cfg)) + n"
proof (induction n arbitrary: cfg)
  case 0
  then show ?case by simp
next
  case (Suc n)
  from Suc.prems obtain response where
    a: "\<not> cancelled (fst cfg)" and
    b: "fst (call_model E sid cfg) = Inr response" and
    c: "\<not> cancelled (fst (snd (call_model E sid cfg)))" and
    d: "truthy_list (resp_tool_calls response)" and
    r: "\<not> raises (fst (step E sid cfg))" and
    e: "every_step_calls_tools E sid n (snd (step E sid cfg))"
    by (auto simp: case_prod_beta split: sum.splits)
  from d obtain calls where f: "resp_tool_calls response = Some calls" and g: "calls \<noteq> []"
    by (cases "resp_tool_calls response") auto
  have "fst (step E sid cfg) = Continue"
    using step_not_raising(3) [OF a b c f g r] by simp
  then have "run_steps E sid (Suc n) cfg = run_steps E sid n (snd (step E sid cfg))"
    by (simp add: case_prod_beta)
  with Suc.IH [OF e] step_with_calls_model_calls [OF a b c f g] show ?case by simp
qed

section \<open>An environment in which no cancel arrives\<close>

lemma suspend_quiet:
  "\<forall>s w. \<not> fst (cancel_arrives E s w) \<Longrightarrow>
   cancelled (fst (suspend E sid cfg)) = cancelled (fst cfg)"
  by (cases cfg) (simp add: case_prod_beta)

lemma send_quiet:
  "\<forall>s w. \<not> fst (cancel_arrives E s w) \<Longrightarrow>
   cancelled (fst (snd (send E sid u cfg))) = cancelled (fst cfg)"
  by (cases cfg) (simp add: case_prod_beta)

lemma finish_call_quiet:
  "\<forall>s w. \<not> fst (cancel_arrives E s w) \<Longrightarrow>
   cancelled (fst (snd (finish_call E sid call status t cfg))) = cancelled (fst cfg)"
  by (simp add: finish_call_def and_then_snd send_quiet append_message_keeps split: option.splits)

lemma dispatch_quiet:
  "\<forall>s w. \<not> fst (cancel_arrives E s w) \<Longrightarrow>
   cancelled (fst (snd (dispatch E sid call cfg))) = cancelled (fst cfg)"
  by (simp add: dispatch_def Let_def case_prod_beta finish_call_quiet suspend_quiet
        split: option.splits tool_outcome.splits)

lemma run_call_quiet:
  "\<forall>s w. \<not> fst (cancel_arrives E s w) \<Longrightarrow>
   cancelled (fst (snd (run_call E sid call cfg))) = cancelled (fst cfg)"
  by (simp add: run_call_def and_then_snd dispatch_quiet send_quiet split: option.splits)

lemma run_calls_quiet:
  "\<forall>s w. \<not> fst (cancel_arrives E s w) \<Longrightarrow>
   cancelled (fst (snd (run_calls E sid calls cfg))) = cancelled (fst cfg)"
  by (induction calls arbitrary: cfg)
     (simp_all add: run_calls_Cons and_then_snd run_call_quiet del: run_calls.simps(2)
        split: option.splits)

lemma emit_response_quiet:
  "\<forall>s w. \<not> fst (cancel_arrives E s w) \<Longrightarrow>
   cancelled (fst (snd (emit_response E sid response cfg))) = cancelled (fst cfg)"
  by (simp add: emit_response_def and_then_snd send_quiet append_message_keeps
        split: option.splits)

lemma call_model_quiet:
  "\<forall>s w. \<not> fst (cancel_arrives E s w) \<Longrightarrow>
   cancelled (fst (snd (call_model E sid cfg))) = cancelled (fst cfg)"
  by (simp add: call_model_def Let_def case_prod_beta suspend_quiet)

lemma call_model_result:
  "fst (call_model E sid cfg)
     = fst (generate (api_call E) (messages (fst cfg))
              (Some (map (\<lambda>entry. to_schema (snd entry)) (tools (fst cfg))))
              (llm (snd cfg), world (snd cfg)))"
  "llm (snd (snd (call_model E sid cfg)))
     = fst (snd (generate (api_call E) (messages (fst cfg))
                   (Some (map (\<lambda>entry. to_schema (snd entry)) (tools (fst cfg))))
                   (llm (snd cfg), world (snd cfg))))"
  by (simp_all add: call_model_def Let_def case_prod_beta suspend_keeps)

section \<open>A connection that delivers every update\<close>

lemma send_delivered: "delivers E \<Longrightarrow> fst (send E sid u cfg) = None"
  by (cases cfg) (simp add: delivers_def case_prod_beta)

lemma finish_call_delivered: "delivers E \<Longrightarrow> fst (finish_call E sid call status t cfg) = None"
  by (simp add: finish_call_def and_then_fst send_delivered)

lemma emit_response_delivered: "delivers E \<Longrightarrow> fst (emit_response E sid response cfg) = None"
  by (simp add: emit_response_def and_then_fst send_delivered split: option.splits)

lemma dispatch_delivered:
  assumes "delivers E"
    and "\<forall>entry \<in> set (tools (fst cfg)). raises_exceptions_only (snd entry)"
  shows "fst (dispatch E sid call cfg) = None"
proof (cases "map_of (tools (fst cfg)) (fc_name (tc_function call))")
  case None
  then show ?thesis by (simp add: dispatch_def finish_call_delivered [OF assms(1)])
next
  case (Some tool)
  then have "(fc_name (tc_function call), tool) \<in> set (tools (fst cfg))"
    by (rule map_of_SomeD)
  with assms(2) have "raises_exceptions_only tool" by force
  then have "\<And>x. fst (execute tool (fc_arguments (tc_function call)) (world (snd cfg)))
                \<noteq> RaisesBaseException x"
    by (simp add: raises_exceptions_only_def)
  with Some show ?thesis
    by (simp add: dispatch_def Let_def case_prod_beta finish_call_delivered [OF assms(1)]
          split: tool_outcome.splits)
qed

lemma run_call_delivered:
  assumes "delivers E"
    and "\<forall>entry \<in> set (tools (fst cfg)). raises_exceptions_only (snd entry)"
  shows "fst (run_call E sid call cfg) = None"
proof -
  let ?cfg1 = "snd (send E sid (ToolCallStart (tc_id call) (call_label E call)
                                  (fc_arguments (tc_function call))) cfg)"
  have "\<forall>entry \<in> set (tools (fst ?cfg1)). raises_exceptions_only (snd entry)"
    using assms(2) by (simp add: send_keeps)
  from dispatch_delivered [OF assms(1) this] show ?thesis
    by (simp add: run_call_def and_then_fst send_delivered [OF assms(1)])
qed

lemma run_calls_delivered:
  assumes "delivers E"
  shows "\<forall>entry \<in> set (tools (fst cfg)). raises_exceptions_only (snd entry) \<Longrightarrow>
         fst (run_calls E sid calls cfg) = None"
proof (induction calls arbitrary: cfg)
  case Nil
  then show ?case by simp
next
  case (Cons call calls)
  have one: "fst (run_call E sid call cfg) = None"
    by (rule run_call_delivered [OF assms Cons.prems])
  have "\<forall>entry \<in> set (tools (fst (snd (run_call E sid call cfg)))).
          raises_exceptions_only (snd entry)"
    using Cons.prems by (simp add: run_call_keeps)
  from Cons.IH [OF this] one show ?case
    by (simp add: run_calls_Cons and_then_fst del: run_calls.simps(2))
qed

lemma step_delivered:
  assumes "\<not> cancelled (fst cfg)"
    and "fst (call_model E sid cfg) = Inr response"
    and "\<not> cancelled (fst (snd (call_model E sid cfg)))"
    and "resp_tool_calls response = Some calls" and "calls \<noteq> []"
    and "delivers E"
    and "\<forall>entry \<in> set (tools (fst cfg)). raises_exceptions_only (snd entry)"
  shows "fst (step E sid cfg) = Continue"
proof -
  let ?emit = "emit_response E sid response (snd (call_model E sid cfg))"
  have e: "fst ?emit = None" by (rule emit_response_delivered [OF assms(6)])
  have "\<forall>entry \<in> set (tools (fst (snd ?emit))). raises_exceptions_only (snd entry)"
    using assms(7) by (simp add: emit_response_keeps call_model_keeps)
  from run_calls_delivered [OF assms(6) this] e show ?thesis
    by (simp add: step_with_calls [OF assms(1-5)] after_fst and_then_fst)
qed

section \<open>A tool that raises outside \<open>Exception\<close>\<close>

lemma dispatch_interrupted:
  assumes "map_of (tools (fst cfg)) (fc_name (tc_function call)) = Some tool"
    and "\<forall>w. fst (execute tool (fc_arguments (tc_function call)) w) = RaisesBaseException x"
  shows "fst (dispatch E sid call cfg) = Some (ToolRaised x)"
    and "messages (fst (snd (dispatch E sid call cfg))) = messages (fst cfg)"
  using assms
  by (simp_all add: dispatch_def Let_def case_prod_beta suspend_keeps)

lemma run_call_interrupted:
  assumes "delivers E"
    and "map_of (tools (fst cfg)) (fc_name (tc_function call)) = Some tool"
    and "\<forall>w. fst (execute tool (fc_arguments (tc_function call)) w) = RaisesBaseException x"
  shows "fst (run_call E sid call cfg) = Some (ToolRaised x)"
    and "messages (fst (snd (run_call E sid call cfg))) = messages (fst cfg)"
proof -
  let ?cfg1 = "snd (send E sid (ToolCallStart (tc_id call) (call_label E call)
                                  (fc_arguments (tc_function call))) cfg)"
  have t: "map_of (tools (fst ?cfg1)) (fc_name (tc_function call)) = Some tool"
    using assms(2) by (simp add: send_keeps)
  show "fst (run_call E sid call cfg) = Some (ToolRaised x)"
    by (simp add: run_call_def and_then_fst send_delivered [OF assms(1)]
          dispatch_interrupted(1) [OF t assms(3)])
  show "messages (fst (snd (run_call E sid call cfg))) = messages (fst cfg)"
    by (simp add: run_call_def and_then_snd send_delivered [OF assms(1)]
          dispatch_interrupted(2) [OF t assms(3)] send_keeps)
qed

lemma step_interrupted:
  assumes "\<not> cancelled (fst cfg)"
    and "fst (call_model E sid cfg) = Inr response"
    and "\<not> cancelled (fst (snd (call_model E sid cfg)))"
    and "resp_tool_calls response = Some (call # calls)"
    and "delivers E"
    and "map_of (tools (fst cfg)) (fc_name (tc_function call)) = Some tool"
    and "\<forall>w. fst (execute tool (fc_arguments (tc_function call)) w) = RaisesBaseException x"
  shows "fst (step E sid cfg) = Raise (ToolRaised x)"
    and "messages (fst (snd (step E sid cfg))) = messages (fst cfg) @ [assistant_message response]"
proof -
  let ?emit = "emit_response E sid response (snd (call_model E sid cfg))"
  have st: "step E sid cfg = after (and_then ?emit (run_calls E sid (call # calls))) Continue"
    by (rule step_with_calls [OF assms(1-4)]) simp
  have e: "fst ?emit = None" by (rule emit_response_delivered [OF assms(5)])
  have m: "messages (fst (snd ?emit)) = messages (fst cfg) @ [assistant_message response]"
    using e by (simp add: emit_response_messages call_model_keeps)
  have t: "map_of (tools (fst (snd ?emit))) (fc_name (tc_function call)) = Some tool"
    using assms(6) by (simp add: emit_response_keeps call_model_keeps)
  note one = run_call_interrupted [OF assms(5) t assms(7), of sid]
  show "fst (step E sid cfg) = Raise (ToolRaised x)"
    using e one(1)
    by (simp add: st after_fst and_then_fst run_calls_Cons del: run_calls.simps(2))
  show "messages (fst (snd (step E sid cfg))) = messages (fst cfg) @ [assistant_message response]"
    using e one m
    by (simp add: st after_snd and_then_snd run_calls_Cons del: run_calls.simps(2))
qed

section \<open>The scripted scenario\<close>

lemma parse_scripted_blocks:
  "parse_blocks (map scripted_block names) t th calls = Inr (t, th, calls @ map demo_call names)"
  by (induction names arbitrary: calls)
     (simp_all add: scripted_block_def parse_tool_use_def demo_call_def)

lemma scripted_generate:
  "generate (api_call (scripted_env b names)) msgs schemas (live_client, w)
     = (Inr (demo_response names), live_client, w)"
  by (simp add: generate_def scripted_env_def live_client_def parse_response_def
        tool_use_body_def parse_scripted_blocks demo_response_def)

lemma scripted_quiet: "\<forall>s w. \<not> fst (cancel_arrives (scripted_env False names) s w)"
  by (simp add: scripted_env_def)

lemma scripted_delivers: "delivers (scripted_env b names)"
  by (simp add: delivers_def scripted_env_def)

lemma scripted_call_model:
  "llm (snd cfg) = live_client \<Longrightarrow>
   fst (call_model (scripted_env b names) sid cfg) = Inr (demo_response names)"
  "llm (snd cfg) = live_client \<Longrightarrow>
   llm (snd (snd (call_model (scripted_env b names) sid cfg))) = live_client"
  by (simp_all add: call_model_result scripted_generate)

lemma scripted_calls:
  "names \<noteq> [] \<Longrightarrow> resp_tool_calls (demo_response names) = Some (map demo_call names)"
  by (simp add: demo_response_def)

lemma scripted_cancel_arrives:
  "cancelled (fst (snd (call_model (scripted_env True names) sid cfg)))"
  by (cases cfg) (simp add: call_model_def Let_def case_prod_beta scripted_env_def)

lemma demo_not_cancelled:
  "\<not> cancelled (fst (demo_config client n))"
  "\<not> cancelled (fst (interrupted_config client n))"
  by (simp_all add: demo_config_def demo_session_def interrupted_config_def
        interrupted_session_def)

lemma demo_llm:
  "llm (snd (demo_config client n)) = client"
  "llm (snd (interrupted_config client n)) = client"
  by (simp_all add: demo_config_def interrupted_config_def demo_agent_def)

lemma demo_start:
  "messages (fst (demo_config client n)) = []"
  "messages (fst (interrupted_config client n)) = []"
  "model_calls (trace (snd (demo_config client n))) = 0"
  "model_calls (trace (snd (interrupted_config client n))) = 0"
  "max_steps (fst (demo_config client n)) = n"
  "max_steps (fst (interrupted_config client n)) = n"
  by (simp_all add: demo_config_def interrupted_config_def demo_session_def
        interrupted_session_def demo_agent_def model_calls_def)

lemma demo_tools:
  "map_of (tools (fst (demo_config client n))) ''nope'' = None"
  "map_of (tools (fst (demo_config client n))) ''broken'' = Some broken_tool"
  "map_of (tools (fst (demo_config client n))) ''calculator'' = Some calculator_tool"
  "map_of (tools (fst (interrupted_config client n))) ''interrupted'' = Some interrupted_tool"
  by (simp_all add: demo_config_def demo_session_def interrupted_config_def
        interrupted_session_def)

lemma demo_tools_catchable:
  "\<forall>entry \<in> set (tools (fst (demo_config client n))). raises_exceptions_only (snd entry)"
  by (simp add: demo_config_def demo_session_def raises_exceptions_only_def
        calculator_tool_def broken_tool_def)

lemma interrupted_raises:
  "\<forall>w. fst (execute interrupted_tool args w) = RaisesBaseException ''interrupted''"
  by (simp add: interrupted_tool_def)

lemma broken_raises: "fst (execute broken_tool args w) = RaisesException ''boom''"
  by (simp add: broken_tool_def)

lemma ToolCall_sel:
  "tc_id (ToolCall i n args) = i"
  "fc_name (tc_function (ToolCall i n args)) = n"
  "fc_arguments (tc_function (ToolCall i n args)) = args"
  by (simp_all add: ToolCall_def)

lemma demo_call_sel:
  "tc_id (demo_call name) = ''call-'' @ name"
  "fc_name (tc_function (demo_call name)) = name"
  "fc_arguments (tc_function (demo_call name)) = [(''a'', JInt 1)]"
  by (simp_all add: demo_call_def ToolCall_sel)

lemma scripted_busy:
  assumes "names \<noteq> []"
  shows "\<not> cancelled (fst cfg) \<Longrightarrow> llm (snd cfg) = live_client \<Longrightarrow>
         \<forall>entry \<in> set (tools (fst cfg)). raises_exceptions_only (snd entry) \<Longrightarrow>
         every_step_calls_tools (scripted_env False names) sid n cfg"
proof (induction n arbitrary: cfg)
  case 0
  then show ?case by simp
next
  case (Suc n)
  let ?E = "scripted_env False names"
  let ?emit = "emit_response ?E sid (demo_response names) (snd (call_model ?E sid cfg))"
  have r: "fst (call_model ?E sid cfg) = Inr (demo_response names)"
    by (rule scripted_call_model(1) [OF Suc.prems(2)])
  have l: "llm (snd (snd (call_model ?E sid cfg))) = live_client"
    by (rule scripted_call_model(2) [OF Suc.prems(2)])
  have c: "\<not> cancelled (fst (snd (call_model ?E sid cfg)))"
    using Suc.prems(1) by (simp add: call_model_quiet [OF scripted_quiet])
  have t: "resp_tool_calls (demo_response names) = Some (map demo_call names)"
    by (rule scripted_calls [OF assms])
  have ne: "map demo_call names \<noteq> []" using assms by simp
  have go: "fst (step ?E sid cfg) = Continue"
    by (rule step_delivered [OF Suc.prems(1) r c t ne scripted_delivers Suc.prems(3)])
  then have nr: "\<not> raises (fst (step ?E sid cfg))" by simp
  have st: "step ?E sid cfg = (Continue, snd (run_calls ?E sid (map demo_call names) (snd ?emit)))"
    by (rule step_not_raising(3) [OF Suc.prems(1) r c t ne nr])
  have "every_step_calls_tools ?E sid n (snd (step ?E sid cfg))"
  proof (rule Suc.IH)
    show "\<not> cancelled (fst (snd (step ?E sid cfg)))"
      using c by (simp add: st run_calls_quiet [OF scripted_quiet]
                    emit_response_quiet [OF scripted_quiet])
    show "llm (snd (snd (step ?E sid cfg))) = live_client"
      using l by (simp add: st run_calls_keeps emit_response_keeps)
    show "\<forall>entry \<in> set (tools (fst (snd (step ?E sid cfg)))). raises_exceptions_only (snd entry)"
      using Suc.prems(3) by (simp add: st run_calls_keeps emit_response_keeps call_model_keeps)
  qed
  then show ?case
    using Suc.prems(1) r c t ne nr
    by (simp add: case_prod_beta split: sum.splits)
qed

section \<open>One call to an unknown or a failing tool\<close>

lemma dispatch_unknown:
  assumes "delivers E" and "map_of (tools (fst cfg)) (fc_name (tc_function call)) = None"
  shows "fst (dispatch E sid call cfg) = None"
    and "messages (fst (snd (dispatch E sid call cfg)))
           = messages (fst cfg)
             @ [tool_message call (''Unknown tool: '' @ fc_name (tc_function call))]"
    and "trace (snd (snd (dispatch E sid call cfg)))
           = trace (snd cfg)
             @ [Sent sid (ToolCallUpdate (tc_id call) Failed
                            (''Unknown tool: '' @ fc_name (tc_function call)))]"
  using assms(2)
  by (simp_all add: dispatch_def finish_call_delivered [OF assms(1)] finish_call_messages
        finish_call_keeps)

lemma dispatch_raises:
  assumes "delivers E" and "map_of (tools (fst cfg)) (fc_name (tc_function call)) = Some tool"
    and "fst (execute tool (fc_arguments (tc_function call)) (world (snd cfg)))
           = RaisesException exc"
  shows "fst (dispatch E sid call cfg) = None"
    and "messages (fst (snd (dispatch E sid call cfg)))
           = messages (fst cfg) @ [tool_message call (''Tool error: '' @ exc)]"
    and "trace (snd (snd (dispatch E sid call cfg)))
           = trace (snd cfg)
             @ [Execute (fc_name (tc_function call)) (fc_arguments (tc_function call)),
                Sent sid (ToolCallUpdate (tc_id call) Failed (''Tool error: '' @ exc))]"
  using assms(2,3)
  by (simp_all add: dispatch_def Let_def case_prod_beta finish_call_delivered [OF assms(1)]
        finish_call_messages finish_call_keeps suspend_keeps)

lemma run_call_dispatch:
  assumes "delivers E"
  shows "run_call E sid call cfg
         = dispatch E sid call
             (snd (send E sid (ToolCallStart (tc_id call) (call_label E call)
                                 (fc_arguments (tc_function call))) cfg))"
  by (simp add: run_call_def prod_eq_iff and_then_fst and_then_snd
        send_delivered [OF assms])

lemma run_calls_next:
  "fst (run_call E sid call cfg) = None \<Longrightarrow>
   run_calls E sid (call # calls) cfg = run_calls E sid calls (snd (run_call E sid call cfg))"
  by (simp add: run_calls_Cons prod_eq_iff and_then_fst and_then_snd del: run_calls.simps(2))

section \<open>The argument summary\<close>

lemma format_parts_take:
  "length parts < 3 \<Longrightarrow>
   format_parts r args parts = parts @ map (format_arg r) (take (3 - length parts) args)"
proof (induction args arbitrary: parts)
  case Nil
  then show ?case by simp
next
  case (Cons item items)
  show ?case
  proof (cases "length parts = 2")
    case True
    then show ?thesis by (simp add: Let_def)
  next
    case False
    with Cons.prems have len: "length (parts @ [format_arg r item]) < 3" by simp
    have "3 - length parts = Suc (3 - length (parts @ [format_arg r item]))"
      using Cons.prems by simp
    then show ?thesis
      using Cons.IH [OF len] False Cons.prems by (simp add: Let_def)
  qed
qed

lemma format_tool_args_take:
  "format_tool_args r args = join '', '' (map (format_arg r) (take 3 args))"
  by (cases args) (simp_all add: format_tool_args_def format_parts_take)

lemma length_shorten: "length (shorten t) \<le> 48"
  by (simp add: shorten_def)

lemma length_join:
  "length (join sep ps) \<le> sum_list (map length ps) + length sep * (length ps - 1)"
  by (induction sep ps rule: join.induct) auto

lemma length_format_args:
  "sum_list (map length (map (format_arg r) items))
     \<le> sum_list (map (\<lambda>item. length (fst item)) items) + 49 * length items"
proof (induction items)
  case Nil
  then show ?case by simp
next
  case (Cons item items)
  have "length (format_arg r item) \<le> length (fst item) + 49"
    using length_shorten [of "r (snd item)"] by (simp add: format_arg_def)
  with Cons.IH show ?case by simp
qed

lemma length_format_tool_args:
  "length (format_tool_args r args)
     \<le> sum_list (map (\<lambda>item. length (fst item)) (take 3 args)) + 151"
proof -
  let ?items = "take 3 args"
  have n: "length ?items \<le> 3" by simp
  have "length (format_tool_args r args)
          \<le> sum_list (map length (map (format_arg r) ?items))
            + length '', '' * (length (map (format_arg r) ?items) - 1)"
    unfolding format_tool_args_take by (rule length_join)
  also have "\<dots> \<le> sum_list (map (\<lambda>item. length (fst item)) ?items) + 49 * length ?items
                  + 2 * (length ?items - 1)"
    using length_format_args [of r ?items] by simp
  also have "\<dots> \<le> sum_list (map (\<lambda>item. length (fst item)) ?items) + 151"
    using n by simp
  finally show ?thesis .
qed

lemma call_label_summary:
  "call_label E call
     = fc_name (tc_function call) @ ''(''
       @ format_tool_args (repr E) (fc_arguments (tc_function call)) @ '')''"
  by (simp add: call_label_def Let_def)

lemma dispatch_trace: "\<exists>rest. trace (snd (snd (dispatch E sid call cfg))) = trace (snd cfg) @ rest"
  by (simp add: dispatch_def Let_def case_prod_beta finish_call_keeps suspend_keeps
        split: option.splits tool_outcome.splits)

lemma run_call_started:
  "\<exists>rest. trace (snd (snd (run_call E sid call cfg)))
           = trace (snd cfg)
             @ Sent sid (ToolCallStart (tc_id call) (call_label E call)
                           (fc_arguments (tc_function call))) # rest"
proof -
  let ?start = "send E sid (ToolCallStart (tc_id call) (call_label E call)
                              (fc_arguments (tc_function call))) cfg"
  obtain rest where "trace (snd (snd (dispatch E sid call (snd ?start))))
                       = trace (snd (snd ?start)) @ rest"
    using dispatch_trace by blast
  then show ?thesis
    by (cases "fst ?start") (simp_all add: run_call_def and_then_snd send_keeps)
qed

lemma python_reprs:
  "repr_str ''notes/today.txt'' = [CHR 0x27] @ ''notes/today.txt'' @ [CHR 0x27]"
  "repr_str ''xxxxxxxxxxxxxxxxxxxxxxxxxxxxxxxxxxxxxxxxxxxxxxxxxx''
     = [CHR 0x27] @ ''xxxxxxxxxxxxxxxxxxxxxxxxxxxxxxxxxxxxxxxxxxxxxxxxxx'' @ [CHR 0x27]"
  "str_int (- 2) = ''-2''"
  by (simp_all add: repr_str_def escape_char_def printable_def str_int_def str_nat.simps
        Let_def)

section \<open>The request built from a conversation\<close>






section \<open>The status codes\<close>



section \<open>The offline client on the calculator prompt\<close>

lemma last_user_text_rev_skip:
  "\<forall>m \<in> set ys. msg_role m \<noteq> User \<Longrightarrow>
   last_user_text_rev (ys @ xs) = last_user_text_rev xs"
  by (induction ys) (simp_all split: content.splits)

lemma last_user_text_append:
  "\<forall>m \<in> set ys. msg_role m \<noteq> User \<Longrightarrow> last_user_text (xs @ ys) = last_user_text xs"
  by (simp add: last_user_text_def last_user_text_rev_skip)

lemma offline_calculator:
  assumes "last_user_text msgs = ''calculate 123 + 456''" and "schemas \<noteq> []"
  shows "fake_response client msgs (Some schemas)
         = (tool_use_response
              [ToolCall (''stub-'' @ str_nat (Suc (fake_call_counter client))) ''calculator''
                 calculator_arguments],
            client\<lparr>fake_call_counter := Suc (fake_call_counter client)\<rparr>)"
  using assms
  by (simp add: fake_response_def lower_def lower_char_def stub_tool_call_def Let_def)

lemma offline_generate:
  assumes "offline client" and "last_user_text msgs = ''calculate 123 + 456''"
    and "schemas \<noteq> []"
  shows "generate api msgs (Some schemas) (client, w)
         = (Inr (tool_use_response
                   [ToolCall (''stub-'' @ str_nat (Suc (fake_call_counter client))) ''calculator''
                      calculator_arguments]),
            client\<lparr>fake_call_counter := Suc (fake_call_counter client)\<rparr>, w)"
  using assms(1) by (simp add: generate_def offline_calculator [OF assms(2,3)])

lemma tool_messages_not_user:
  "\<forall>m \<in> set (map2 tool_message calls texts). msg_role m \<noteq> User"
  by (auto simp: tool_message_def Message_def dest!: set_zip_leftD in_set_zipE)

lemma offline_step:
  assumes "\<not> cancelled (fst cfg)" and "offline (llm (snd cfg))" and "tools (fst cfg) \<noteq> []"
    and "last_user_text (messages (fst cfg)) = ''calculate 123 + 456''"
    and "\<forall>entry \<in> set (tools (fst cfg)). raises_exceptions_only (snd entry)"
    and "\<forall>s w. \<not> fst (cancel_arrives E s w)" and "delivers E"
  shows "\<exists>response calls.
           fst (call_model E sid cfg) = Inr response
           \<and> resp_tool_calls response = Some calls \<and> calls \<noteq> []
           \<and> \<not> cancelled (fst (snd (call_model E sid cfg)))
           \<and> fst (step E sid cfg) = Continue
           \<and> \<not> cancelled (fst (snd (step E sid cfg)))
           \<and> offline (llm (snd (snd (step E sid cfg))))
           \<and> tools (fst (snd (step E sid cfg))) = tools (fst cfg)
           \<and> last_user_text (messages (fst (snd (step E sid cfg)))) = ''calculate 123 + 456''"
proof -
  let ?schemas = "map (\<lambda>entry. to_schema (snd entry)) (tools (fst cfg))"
  let ?calls = "[ToolCall (''stub-'' @ str_nat (Suc (fake_call_counter (llm (snd cfg)))))
                   ''calculator'' calculator_arguments]"
  let ?response = "tool_use_response ?calls"
  let ?emit = "emit_response E sid ?response (snd (call_model E sid cfg))"
  have ne: "?schemas \<noteq> []" using assms(3) by simp
  have gen: "generate (api_call E) (messages (fst cfg)) (Some ?schemas)
               (llm (snd cfg), world (snd cfg))
               = (Inr ?response,
                  (llm (snd cfg))\<lparr>fake_call_counter := Suc (fake_call_counter (llm (snd cfg)))\<rparr>,
                  world (snd cfg))"
    by (rule offline_generate [OF assms(2) assms(4) ne])
  have r: "fst (call_model E sid cfg) = Inr ?response"
    by (simp add: call_model_result gen)
  have l: "offline (llm (snd (snd (call_model E sid cfg))))"
    using assms(2) by (simp add: call_model_result gen)
  have c: "\<not> cancelled (fst (snd (call_model E sid cfg)))"
    using assms(1) by (simp add: call_model_quiet [OF assms(6)])
  have t: "resp_tool_calls ?response = Some ?calls" by (simp add: tool_use_response_def)
  have n: "?calls \<noteq> []" by simp
  have go: "fst (step E sid cfg) = Continue"
    by (rule step_delivered [OF assms(1) r c t n assms(7) assms(5)])
  then have nr: "\<not> raises (fst (step E sid cfg))" by simp
  have e: "fst ?emit = None"
    by (rule emit_response_delivered [OF assms(7)])
  have rc: "fst (run_calls E sid ?calls (snd ?emit)) = None"
    by (rule step_not_raising(2) [OF assms(1) r c t n nr])
  have st: "step E sid cfg = (Continue, snd (run_calls E sid ?calls (snd ?emit)))"
    by (rule step_not_raising(3) [OF assms(1) r c t n nr])
  obtain texts where
    msgs: "messages (fst (snd (step E sid cfg)))
             = messages (fst cfg) @ (assistant_message ?response # map2 tool_message ?calls texts)"
    using run_calls_messages [OF rc] e
    by (auto simp: st emit_response_messages call_model_keeps simp del: run_calls.simps)
  have "\<forall>m \<in> set (assistant_message ?response # map2 tool_message ?calls texts).
          msg_role m \<noteq> User"
    using tool_messages_not_user [of ?calls texts]
    by (simp add: assistant_message_def Message_def)
  then have last:
    "last_user_text (messages (fst (snd (step E sid cfg)))) = ''calculate 123 + 456''"
    unfolding msgs using assms(4) by (simp only: last_user_text_append)
  have c': "\<not> cancelled (fst (snd (step E sid cfg)))"
    using c by (simp add: st run_calls_quiet [OF assms(6)] emit_response_quiet [OF assms(6)]
                  del: run_calls.simps)
  have l': "offline (llm (snd (snd (step E sid cfg))))"
    using l by (simp add: st run_calls_keeps emit_response_keeps del: run_calls.simps)
  have t': "tools (fst (snd (step E sid cfg))) = tools (fst cfg)"
    by (simp add: st run_calls_keeps emit_response_keeps call_model_keeps del: run_calls.simps)
  from r t n c go c' l' t' last show ?thesis by blast
qed

lemma offline_busy:
  assumes "\<forall>s w. \<not> fst (cancel_arrives E s w)" and "delivers E"
  shows "\<not> cancelled (fst cfg) \<Longrightarrow> offline (llm (snd cfg)) \<Longrightarrow> tools (fst cfg) \<noteq> [] \<Longrightarrow>
         last_user_text (messages (fst cfg)) = ''calculate 123 + 456'' \<Longrightarrow>
         \<forall>entry \<in> set (tools (fst cfg)). raises_exceptions_only (snd entry) \<Longrightarrow>
         every_step_calls_tools E sid n cfg"
proof (induction n arbitrary: cfg)
  case 0
  then show ?case by simp
next
  case (Suc n)
  from offline_step [OF Suc.prems assms, of sid] obtain response calls where
    r: "fst (call_model E sid cfg) = Inr response" and
    t: "resp_tool_calls response = Some calls" "calls \<noteq> []" and
    c: "\<not> cancelled (fst (snd (call_model E sid cfg)))" and
    go: "fst (step E sid cfg) = Continue" and
    inv: "\<not> cancelled (fst (snd (step E sid cfg)))"
         "offline (llm (snd (snd (step E sid cfg))))"
         "last_user_text (messages (fst (snd (step E sid cfg)))) = ''calculate 123 + 456''" and
    same: "tools (fst (snd (step E sid cfg))) = tools (fst cfg)"
    by blast
  have "every_step_calls_tools E sid n (snd (step E sid cfg))"
    using Suc.prems(3,5) by (intro Suc.IH inv) (simp_all add: same)
  then show ?case
    using Suc.prems(1) r t c go by (simp add: case_prod_beta split: sum.splits)
qed

lemma calculator_prompt_busy:
  "every_step_calls_tools (scripted_env False names) ''sess-0'' n (calculator_prompt n)"
proof (rule offline_busy [OF scripted_quiet scripted_delivers])
  show "\<not> cancelled (fst (calculator_prompt n))"
    by (simp add: calculator_prompt_def)
  show "offline (llm (snd (calculator_prompt n)))"
    by (simp add: calculator_prompt_def demo_agent_def offline_client_def)
  show "tools (fst (calculator_prompt n)) \<noteq> []"
    by (simp add: calculator_prompt_def demo_session_def)
  show "last_user_text (messages (fst (calculator_prompt n))) = ''calculate 123 + 456''"
    by (simp add: calculator_prompt_def demo_session_def last_user_text_def Message_def)
  show "\<forall>entry \<in> set (tools (fst (calculator_prompt n))). raises_exceptions_only (snd entry)"
    by (simp add: calculator_prompt_def demo_session_def raises_exceptions_only_def
          calculator_tool_def broken_tool_def)
qed

lemma prompt_calculator:
  "prompt (scripted_env False names) ''sess-0'' [TextBlock ''calculate 123 + 456'']
     (demo_agent offline_client n)
   = (fst (run_steps (scripted_env False names) ''sess-0'' n (calculator_prompt n)),
      (snd (snd (run_steps (scripted_env False names) ''sess-0'' n (calculator_prompt n))))
        \<lparr>sessions :=
           (sessions (snd (snd (run_steps (scripted_env False names) ''sess-0'' n
                                  (calculator_prompt n)))))
             (''sess-0'' \<mapsto> fst (snd (run_steps (scripted_env False names) ''sess-0'' n
                                        (calculator_prompt n))))\<rparr>)"
proof -
  have known: "sessions (demo_agent offline_client n) ''sess-0'' = Some (demo_session n)"
    by (simp add: demo_agent_def)
  have bound: "max_steps (demo_session n) = n" by (simp add: demo_session_def)
  show ?thesis
    by (simp add: prompt_def known run_turn_def bound acp_to_text_def calculator_prompt_def
          Let_def case_prod_beta del: run_steps.simps)
qed

section \<open>Unknown sessions\<close>

text \<open>
  Claim C4. For a session id that is not in the session map, \<open>prompt\<close> returns the stop
  reason \<open>refusal\<close> and leaves the whole state of the bridge as it was (the session map,
  every session in it, the client, the world and the record of actions), and \<open>cancel\<close>
  changes nothing.
\<close>

theorem prompt_cancel_unknown_session:
  "sessions ag sid = None \<Longrightarrow> prompt E sid blocks ag = (Inr Refusal, ag) \<and> cancel sid ag = ag"
  by (simp add: prompt_def cancel_def)

theorem prompt_cancel_unknown_session_witness:
  "sessions (demo_agent live_client 2) ''sess-9'' = None
   \<and> prompt (scripted_env False [''calculator'']) ''sess-9'' [TextBlock ''hi'']
        (demo_agent live_client 2)
       = (Inr Refusal, demo_agent live_client 2)
   \<and> cancel ''sess-9'' (demo_agent live_client 2) = demo_agent live_client 2"
proof -
  have unknown: "sessions (demo_agent live_client 2) ''sess-9'' = None"
    by (simp add: demo_agent_def)
  from prompt_cancel_unknown_session [OF unknown] unknown show ?thesis by simp
qed

section \<open>The frame of a prompt\<close>

text \<open>
  Claim C10. A \<open>prompt\<close> on a session id that is in the session map leaves the set of
  session ids as it was, and every other session (its conversation, its cancellation flag
  and the rest of it) as it was, whether the turn returns a stop reason or raises.
\<close>

theorem prompt_frame:
  assumes "sessions ag sid = Some st"
  shows "dom (sessions (snd (prompt E sid blocks ag))) = dom (sessions ag)
         \<and> (\<forall>other. other \<noteq> sid \<longrightarrow>
               sessions (snd (prompt E sid blocks ag)) other = sessions ag other)"
  using assms
  by (auto simp: prompt_def run_turn_def Let_def case_prod_beta run_steps_sessions)

theorem prompt_frame_witness:
  "sessions (demo_agent live_client 2) ''sess-0'' = Some (demo_session 2)
   \<and> dom (sessions (snd (prompt (scripted_env False [''calculator'']) ''sess-0''
                            [TextBlock ''hi''] (demo_agent live_client 2))))
       = {''sess-0'', ''sess-1''}
   \<and> sessions (snd (prompt (scripted_env False [''calculator'']) ''sess-0''
                       [TextBlock ''hi''] (demo_agent live_client 2))) ''sess-1''
       = Some (interrupted_session 2)"
proof -
  have known: "sessions (demo_agent live_client 2) ''sess-0'' = Some (demo_session 2)"
    by (simp add: demo_agent_def)
  have ids: "dom (sessions (demo_agent live_client 2)) = {''sess-0'', ''sess-1''}"
    by (auto simp: demo_agent_def)
  have other: "sessions (demo_agent live_client 2) ''sess-1'' = Some (interrupted_session 2)"
    by (simp add: demo_agent_def)
  from prompt_frame [OF known, of "scripted_env False [''calculator'']" "[TextBlock ''hi'']"]
    known ids other
  show ?thesis by simp
qed

section \<open>Tool results in the conversation\<close>

text \<open>
  Claim C1, as amended. Take a step whose model response carries a non-empty list of tool
  calls and which finds the cancellation flag clear when the model call has returned. No
  exception leaves the step when the connection delivers every update and no tool raises
  outside \<open>Exception\<close>. When no exception leaves the step, the step appends, after the
  assistant message, exactly one tool message per call, in the order of the calls, each
  with the role \<open>tool\<close>, the id of its call and the name of its tool; the step does not
  end the turn; it makes one model call; and the next model call is made with the
  conversation that holds all these messages.
\<close>

theorem tool_messages_appended:
  assumes "\<not> cancelled (fst cfg)"
    and "fst (call_model E sid cfg) = Inr response"
    and "\<not> cancelled (fst (snd (call_model E sid cfg)))"
    and "resp_tool_calls response = Some calls" and "calls \<noteq> []"
  shows
   "(delivers E \<and> (\<forall>entry \<in> set (tools (fst cfg)). raises_exceptions_only (snd entry)) \<longrightarrow>
       \<not> raises (fst (step E sid cfg)))
    \<and> (\<not> raises (fst (step E sid cfg)) \<longrightarrow>
       fst (step E sid cfg) = Continue
       \<and> (\<exists>ms. messages (fst (snd (step E sid cfg)))
                  = messages (fst cfg) @ assistant_message response # ms
               \<and> map (\<lambda>m. (msg_role m, msg_tool_call_id m, msg_name m)) ms
                  = map (\<lambda>c. (Tool, Some (tc_id c), Some (fc_name (tc_function c)))) calls)
       \<and> run_steps E sid (Suc n) cfg = run_steps E sid n (snd (step E sid cfg))
       \<and> model_calls (trace (snd (snd (step E sid cfg)))) = Suc (model_calls (trace (snd cfg)))
       \<and> (\<exists>schemas. trace (snd (snd (call_model E sid (snd (step E sid cfg)))))
                       = trace (snd (snd (step E sid cfg)))
                         @ [Generate (messages (fst (snd (step E sid cfg)))) schemas]))"
proof -
  let ?emit = "emit_response E sid response (snd (call_model E sid cfg))"
  have safe: "\<not> raises (fst (step E sid cfg))"
    if "delivers E" "\<forall>entry \<in> set (tools (fst cfg)). raises_exceptions_only (snd entry)"
    using step_delivered [OF assms that] by simp
  have appends: "fst (step E sid cfg) = Continue
       \<and> (\<exists>ms. messages (fst (snd (step E sid cfg)))
                  = messages (fst cfg) @ assistant_message response # ms
               \<and> map (\<lambda>m. (msg_role m, msg_tool_call_id m, msg_name m)) ms
                  = map (\<lambda>c. (Tool, Some (tc_id c), Some (fc_name (tc_function c)))) calls)
       \<and> run_steps E sid (Suc n) cfg = run_steps E sid n (snd (step E sid cfg))
       \<and> model_calls (trace (snd (snd (step E sid cfg)))) = Suc (model_calls (trace (snd cfg)))
       \<and> (\<exists>schemas. trace (snd (snd (call_model E sid (snd (step E sid cfg)))))
                       = trace (snd (snd (step E sid cfg)))
                         @ [Generate (messages (fst (snd (step E sid cfg)))) schemas])"
    if nr: "\<not> raises (fst (step E sid cfg))"
  proof -
    note quiet = step_not_raising [OF assms nr]
    have st: "step E sid cfg = (Continue, snd (run_calls E sid calls (snd ?emit)))"
      by (rule quiet(3))
    obtain texts where len: "length texts = length calls" and
      msgs: "messages (fst (snd (run_calls E sid calls (snd ?emit))))
               = messages (fst (snd ?emit)) @ map2 tool_message calls texts"
      using run_calls_messages [OF quiet(2)] by blast
    have "messages (fst (snd (step E sid cfg)))
            = messages (fst cfg) @ assistant_message response # map2 tool_message calls texts"
      using st msgs quiet(1) by (simp add: emit_response_messages call_model_keeps)
    then have appended: "\<exists>ms. messages (fst (snd (step E sid cfg)))
                 = messages (fst cfg) @ assistant_message response # ms
              \<and> map (\<lambda>m. (msg_role m, msg_tool_call_id m, msg_name m)) ms
                 = map (\<lambda>c. (Tool, Some (tc_id c), Some (fc_name (tc_function c)))) calls"
      using tool_message_fields [OF len] by blast
    have continue: "run_steps E sid (Suc n) cfg = run_steps E sid n (snd (step E sid cfg))"
      using st by simp
    have "\<exists>schemas. trace (snd (snd (call_model E sid (snd (step E sid cfg)))))
                      = trace (snd (snd (step E sid cfg)))
                        @ [Generate (messages (fst (snd (step E sid cfg)))) schemas]"
      by (simp add: call_model_keeps)
    with st appended continue step_with_calls_model_calls [OF assms] show ?thesis by simp
  qed
  from safe appends show ?thesis by blast
qed

theorem tool_messages_appended_witness:
  "\<not> cancelled (fst (demo_config live_client 2))
   \<and> fst (call_model (scripted_env False [''calculator'', ''nope'']) ''sess-0''
            (demo_config live_client 2))
       = Inr (demo_response [''calculator'', ''nope''])
   \<and> \<not> cancelled (fst (snd (call_model (scripted_env False [''calculator'', ''nope''])
                                ''sess-0'' (demo_config live_client 2))))
   \<and> resp_tool_calls (demo_response [''calculator'', ''nope''])
       = Some [demo_call ''calculator'', demo_call ''nope'']
   \<and> delivers (scripted_env False [''calculator'', ''nope''])
   \<and> map snd (tools (fst (demo_config live_client 2))) = [calculator_tool, broken_tool]
   \<and> raises_exceptions_only calculator_tool
   \<and> raises_exceptions_only broken_tool
   \<and> fst (step (scripted_env False [''calculator'', ''nope'']) ''sess-0''
            (demo_config live_client 2)) = Continue
   \<and> (\<exists>ms. messages (fst (snd (step (scripted_env False [''calculator'', ''nope''])
                                   ''sess-0'' (demo_config live_client 2))))
               = assistant_message (demo_response [''calculator'', ''nope'']) # ms
            \<and> map (\<lambda>m. (msg_role m, msg_tool_call_id m, msg_name m)) ms
               = [(Tool, Some ''call-calculator'', Some ''calculator''),
                  (Tool, Some ''call-nope'', Some ''nope'')])
   \<and> model_calls (trace (snd (snd (step (scripted_env False [''calculator'', ''nope''])
                                       ''sess-0'' (demo_config live_client 2))))) = 1"
proof -
  let ?E = "scripted_env False [''calculator'', ''nope'']"
  let ?cfg = "demo_config live_client 2"
  have a: "\<not> cancelled (fst ?cfg)" by (rule demo_not_cancelled)
  have b: "fst (call_model ?E ''sess-0'' ?cfg) = Inr (demo_response [''calculator'', ''nope''])"
    by (rule scripted_call_model(1) [OF demo_llm(1)])
  have c: "\<not> cancelled (fst (snd (call_model ?E ''sess-0'' ?cfg)))"
    using a by (simp add: call_model_quiet [OF scripted_quiet])
  have d: "resp_tool_calls (demo_response [''calculator'', ''nope''])
             = Some [demo_call ''calculator'', demo_call ''nope'']"
    by (simp add: demo_response_def)
  have e: "[demo_call ''calculator'', demo_call ''nope''] \<noteq> []" by simp
  have dl: "delivers ?E" by (rule scripted_delivers)
  have ok: "\<forall>entry \<in> set (tools (fst ?cfg)). raises_exceptions_only (snd entry)"
    by (rule demo_tools_catchable)
  note step = tool_messages_appended [OF a b c d e, where n = 0]
  have f: "\<not> raises (fst (step ?E ''sess-0'' ?cfg))"
    using step dl ok by blast
  have registry: "map snd (tools (fst ?cfg)) = [calculator_tool, broken_tool]"
    by (simp add: demo_config_def demo_session_def)
  have catchable: "raises_exceptions_only calculator_tool" "raises_exceptions_only broken_tool"
    by (simp_all add: raises_exceptions_only_def calculator_tool_def broken_tool_def)
  from step f a b c d dl registry catchable show ?thesis
    by (simp add: demo_start demo_call_sel)
qed

text \<open>
  Without the two conditions the statement fails. When a cancel arrives during the model
  call, the response may carry tool calls, and the step ends the turn with \<open>cancelled\<close>
  and appends nothing. When the tool of a call raises outside \<open>Exception\<close>, the handler
  of line 178 does not catch it: the assistant message is appended, no tool message is,
  and the exception leaves the step.
\<close>

theorem cancelled_or_interrupted_step_appends_no_tool_message:
  "fst (call_model (scripted_env True [''calculator'']) ''sess-0'' (demo_config live_client 2))
     = Inr (demo_response [''calculator''])
   \<and> resp_tool_calls (demo_response [''calculator'']) = Some [demo_call ''calculator'']
   \<and> fst (step (scripted_env True [''calculator'']) ''sess-0'' (demo_config live_client 2))
       = Return Cancelled
   \<and> messages (fst (snd (step (scripted_env True [''calculator'']) ''sess-0''
                             (demo_config live_client 2))))
       = messages (fst (demo_config live_client 2))
   \<and> fst (call_model (scripted_env False [''interrupted'']) ''sess-1''
            (interrupted_config live_client 2))
       = Inr (demo_response [''interrupted''])
   \<and> \<not> cancelled (fst (snd (call_model (scripted_env False [''interrupted'']) ''sess-1''
                                (interrupted_config live_client 2))))
   \<and> resp_tool_calls (demo_response [''interrupted'']) = Some [demo_call ''interrupted'']
   \<and> fst (step (scripted_env False [''interrupted'']) ''sess-1''
            (interrupted_config live_client 2))
       = Raise (ToolRaised ''interrupted'')
   \<and> messages (fst (snd (step (scripted_env False [''interrupted'']) ''sess-1''
                             (interrupted_config live_client 2))))
       = [assistant_message (demo_response [''interrupted''])]"
proof -
  let ?E = "scripted_env True [''calculator'']"
  let ?cfg = "demo_config live_client 2"
  have r: "fst (call_model ?E ''sess-0'' ?cfg) = Inr (demo_response [''calculator''])"
    by (rule scripted_call_model(1) [OF demo_llm(1)])
  have c: "cancelled (fst (snd (call_model ?E ''sess-0'' ?cfg)))"
    by (rule scripted_cancel_arrives)
  have d: "resp_tool_calls (demo_response [''calculator'']) = Some [demo_call ''calculator'']"
    by (simp add: demo_response_def)
  have st: "step ?E ''sess-0'' ?cfg = (Return Cancelled, snd (call_model ?E ''sess-0'' ?cfg))"
    using demo_not_cancelled(1) [of live_client 2] r c
    by (simp add: step_def case_prod_beta split: sum.splits)
  let ?F = "scripted_env False [''interrupted'']"
  let ?cfi = "interrupted_config live_client 2"
  have a': "\<not> cancelled (fst ?cfi)" by (rule demo_not_cancelled)
  have r': "fst (call_model ?F ''sess-1'' ?cfi) = Inr (demo_response [''interrupted''])"
    by (rule scripted_call_model(1) [OF demo_llm(2)])
  have c': "\<not> cancelled (fst (snd (call_model ?F ''sess-1'' ?cfi)))"
    using a' by (simp add: call_model_quiet [OF scripted_quiet])
  have d': "resp_tool_calls (demo_response [''interrupted'']) = Some (demo_call ''interrupted'' # [])"
    by (simp add: demo_response_def)
  have t': "map_of (tools (fst ?cfi)) (fc_name (tc_function (demo_call ''interrupted'')))
              = Some interrupted_tool"
    by (simp add: demo_call_sel demo_tools)
  note stop = step_interrupted [OF a' r' c' d' scripted_delivers t' interrupted_raises]
  from r d st r' c' d' stop show ?thesis
    by (simp add: call_model_keeps demo_start)
qed

section \<open>Cancellation at the two checkpoints\<close>

text \<open>
  Claim C2. If the cancellation flag is set when a step begins, the turn ends with
  \<open>cancelled\<close> and nothing changes. If it is clear then but set when the model call has
  returned a response, the turn ends with \<open>cancelled\<close>, the conversation is the one
  before the step (no assistant message), and the only action recorded for the step is
  the model call (no thought and no message update).
\<close>

theorem cancelled_at_checkpoint:
  "(cancelled (fst cfg) \<longrightarrow> run_steps E sid (Suc n) cfg = (Inr Cancelled, cfg))
   \<and> (\<not> cancelled (fst cfg) \<and> fst (call_model E sid cfg) = Inr response
        \<and> cancelled (fst (snd (call_model E sid cfg))) \<longrightarrow>
        run_steps E sid (Suc n) cfg = (Inr Cancelled, snd (call_model E sid cfg))
        \<and> messages (fst (snd (run_steps E sid (Suc n) cfg))) = messages (fst cfg)
        \<and> (\<exists>schemas. trace (snd (snd (run_steps E sid (Suc n) cfg)))
                         = trace (snd cfg) @ [Generate (messages (fst cfg)) schemas]))"
  by (simp add: step_def case_prod_beta call_model_keeps split: sum.splits)

theorem cancelled_at_checkpoint_witness:
  "cancelled (fst ((demo_session 2)\<lparr>cancelled := True\<rparr>, demo_agent live_client 2))
   \<and> run_steps (scripted_env False [''calculator'']) ''sess-0'' (Suc 1)
        ((demo_session 2)\<lparr>cancelled := True\<rparr>, demo_agent live_client 2)
       = (Inr Cancelled, (demo_session 2)\<lparr>cancelled := True\<rparr>, demo_agent live_client 2)
   \<and> \<not> cancelled (fst (demo_config live_client 2))
   \<and> fst (call_model (scripted_env True [''calculator'']) ''sess-0'' (demo_config live_client 2))
       = Inr (demo_response [''calculator''])
   \<and> cancelled (fst (snd (call_model (scripted_env True [''calculator'']) ''sess-0''
                              (demo_config live_client 2))))
   \<and> fst (run_steps (scripted_env True [''calculator'']) ''sess-0'' (Suc 1)
            (demo_config live_client 2))
       = Inr Cancelled
   \<and> messages (fst (snd (run_steps (scripted_env True [''calculator'']) ''sess-0'' (Suc 1)
                             (demo_config live_client 2)))) = []"
proof -
  let ?cfg = "demo_config live_client 2"
  let ?off = "((demo_session 2)\<lparr>cancelled := True\<rparr>, demo_agent live_client 2)"
  have early: "cancelled (fst ?off)" by simp
  have a: "\<not> cancelled (fst ?cfg)" by (rule demo_not_cancelled)
  have b: "fst (call_model (scripted_env True [''calculator'']) ''sess-0'' ?cfg)
             = Inr (demo_response [''calculator''])"
    by (rule scripted_call_model(1) [OF demo_llm(1)])
  have c: "cancelled (fst (snd (call_model (scripted_env True [''calculator'']) ''sess-0'' ?cfg)))"
    by (rule scripted_cancel_arrives)
  from cancelled_at_checkpoint [where cfg = ?off and E = "scripted_env False [''calculator'']"
        and sid = "''sess-0''" and n = 1 and response = "demo_response [''calculator'']"]
    cancelled_at_checkpoint [where cfg = ?cfg and E = "scripted_env True [''calculator'']"
        and sid = "''sess-0''" and n = 1 and response = "demo_response [''calculator'']"]
    early a b c
  show ?thesis by (simp add: call_model_keeps demo_start del: run_steps.simps)
qed

section \<open>The step bound\<close>

text \<open>
  Claim C3, as amended. A turn with step bound \<open>N\<close> in which every step's model call
  succeeds with a non-empty list of tool calls, no step finds the cancellation flag set
  and no exception leaves a step makes exactly \<open>N\<close> model calls and ends with
  \<open>max_turn_requests\<close>.
\<close>

theorem max_steps_exhausted:
  assumes "every_step_calls_tools E sid (max_steps (fst cfg)) cfg"
  shows "fst (run_turn E sid cfg) = Inr MaxTurnRequests
         \<and> model_calls (trace (snd (snd (run_turn E sid cfg))))
             = model_calls (trace (snd cfg)) + max_steps (fst cfg)"
  using run_steps_busy [OF assms] by (simp add: run_turn_def)

theorem max_steps_exhausted_witness:
  "every_step_calls_tools (scripted_env False [''calculator'', ''broken'']) ''sess-0''
     (max_steps (fst (demo_config live_client 2))) (demo_config live_client 2)
   \<and> max_steps (fst (demo_config live_client 2)) = 2
   \<and> fst (run_turn (scripted_env False [''calculator'', ''broken'']) ''sess-0''
            (demo_config live_client 2))
       = Inr MaxTurnRequests
   \<and> model_calls (trace (snd (snd (run_turn (scripted_env False [''calculator'', ''broken''])
                                       ''sess-0'' (demo_config live_client 2))))) = 2"
proof -
  let ?cfg = "demo_config live_client 2"
  let ?E = "scripted_env False [''calculator'', ''broken'']"
  have ne: "[''calculator'', ''broken''] \<noteq> []" by simp
  have busy: "every_step_calls_tools ?E ''sess-0'' (max_steps (fst ?cfg)) ?cfg"
    by (rule scripted_busy [OF ne demo_not_cancelled(1) demo_llm(1) demo_tools_catchable])
  from max_steps_exhausted [OF busy] busy show ?thesis by (simp add: demo_start)
qed

text \<open>
  Without the condition on exceptions the statement fails: the model call of the first
  step succeeds with one tool call, the flag is never set, the tool raises outside
  \<open>Exception\<close>, and the turn with step bound 2 makes one model call and ends with no
  stop reason at all.
\<close>

theorem interrupted_turn_has_no_stop_reason:
  "\<not> cancelled (fst (interrupted_config live_client 2))
   \<and> fst (call_model (scripted_env False [''interrupted'']) ''sess-1''
            (interrupted_config live_client 2))
       = Inr (demo_response [''interrupted''])
   \<and> resp_tool_calls (demo_response [''interrupted'']) = Some [demo_call ''interrupted'']
   \<and> \<not> cancelled (fst (snd (call_model (scripted_env False [''interrupted'']) ''sess-1''
                                (interrupted_config live_client 2))))
   \<and> max_steps (fst (interrupted_config live_client 2)) = 2
   \<and> fst (run_turn (scripted_env False [''interrupted'']) ''sess-1''
            (interrupted_config live_client 2))
       = Inl (ToolRaised ''interrupted'')
   \<and> model_calls (trace (snd (snd (run_turn (scripted_env False [''interrupted'']) ''sess-1''
                                       (interrupted_config live_client 2))))) = 1"
proof -
  let ?F = "scripted_env False [''interrupted'']"
  let ?cfi = "interrupted_config live_client 2"
  have a: "\<not> cancelled (fst ?cfi)" by (rule demo_not_cancelled)
  have r: "fst (call_model ?F ''sess-1'' ?cfi) = Inr (demo_response [''interrupted''])"
    by (rule scripted_call_model(1) [OF demo_llm(2)])
  have c: "\<not> cancelled (fst (snd (call_model ?F ''sess-1'' ?cfi)))"
    using a by (simp add: call_model_quiet [OF scripted_quiet])
  have d: "resp_tool_calls (demo_response [''interrupted'']) = Some (demo_call ''interrupted'' # [])"
    by (simp add: demo_response_def)
  have t: "map_of (tools (fst ?cfi)) (fc_name (tc_function (demo_call ''interrupted'')))
             = Some interrupted_tool"
    by (simp add: demo_call_sel demo_tools)
  have ne: "demo_call ''interrupted'' # [] \<noteq> []" by simp
  have stop: "fst (step ?F ''sess-1'' ?cfi) = Raise (ToolRaised ''interrupted'')"
    by (rule step_interrupted(1) [OF a r c d scripted_delivers t interrupted_raises])
  have turn: "run_turn ?F ''sess-1'' ?cfi = (Inl (ToolRaised ''interrupted''), snd (step ?F ''sess-1'' ?cfi))"
    using stop by (simp add: run_turn_def demo_start numeral_2_eq_2 case_prod_beta)
  from a r c d turn step_with_calls_model_calls [OF a r c d ne] show ?thesis
    by (simp add: demo_start)
qed

section \<open>Unknown and failing tools\<close>

text \<open>
  Claim C5, as amended. On a connection that delivers every update: a call whose tool
  name is not in the registry gets the started update, the failed update and the tool
  message with the text \<open>Unknown tool: <name>\<close>, and no tool is executed; a call whose
  tool raises an \<open>Exception\<close> gets the failed update and the tool message with the text
  \<open>Tool error: <failure text>\<close>; in both cases nothing is raised and the loop goes on
  to the next call; and a step with tool calls whose tools raise nothing outside
  \<open>Exception\<close> does not end the turn: the loop goes on to the next step.
\<close>

theorem failed_calls_contained:
  assumes "delivers E"
  shows
   "(map_of (tools (fst cfg)) (fc_name (tc_function call)) = None \<longrightarrow>
       fst (run_call E sid call cfg) = None
       \<and> messages (fst (snd (run_call E sid call cfg)))
           = messages (fst cfg)
             @ [tool_message call (''Unknown tool: '' @ fc_name (tc_function call))]
       \<and> trace (snd (snd (run_call E sid call cfg)))
           = trace (snd cfg)
             @ [Sent sid (ToolCallStart (tc_id call) (call_label E call)
                            (fc_arguments (tc_function call))),
                Sent sid (ToolCallUpdate (tc_id call) Failed
                            (''Unknown tool: '' @ fc_name (tc_function call)))]
       \<and> run_calls E sid (call # calls) cfg
           = run_calls E sid calls (snd (run_call E sid call cfg)))
    \<and> (map_of (tools (fst cfg)) (fc_name (tc_function call)) = Some tool
         \<and> fst (execute tool (fc_arguments (tc_function call))
                  (world (snd (snd (send E sid (ToolCallStart (tc_id call) (call_label E call)
                                                   (fc_arguments (tc_function call))) cfg)))))
             = RaisesException exc \<longrightarrow>
       fst (run_call E sid call cfg) = None
       \<and> messages (fst (snd (run_call E sid call cfg)))
           = messages (fst cfg) @ [tool_message call (''Tool error: '' @ exc)]
       \<and> trace (snd (snd (run_call E sid call cfg)))
           = trace (snd cfg)
             @ [Sent sid (ToolCallStart (tc_id call) (call_label E call)
                            (fc_arguments (tc_function call))),
                Execute (fc_name (tc_function call)) (fc_arguments (tc_function call)),
                Sent sid (ToolCallUpdate (tc_id call) Failed (''Tool error: '' @ exc))]
       \<and> run_calls E sid (call # calls) cfg
           = run_calls E sid calls (snd (run_call E sid call cfg)))
    \<and> (\<not> cancelled (fst cfg) \<and> fst (call_model E sid cfg) = Inr response
         \<and> \<not> cancelled (fst (snd (call_model E sid cfg)))
         \<and> resp_tool_calls response = Some (call # calls)
         \<and> (\<forall>entry \<in> set (tools (fst cfg)). raises_exceptions_only (snd entry)) \<longrightarrow>
       fst (step E sid cfg) = Continue
       \<and> run_steps E sid (Suc n) cfg = run_steps E sid n (snd (step E sid cfg)))"
proof -
  let ?cfg1 = "snd (send E sid (ToolCallStart (tc_id call) (call_label E call)
                                  (fc_arguments (tc_function call))) cfg)"
  note rc = run_call_dispatch [OF assms, of sid call cfg]
  have unknown: "fst (run_call E sid call cfg) = None
       \<and> messages (fst (snd (run_call E sid call cfg)))
           = messages (fst cfg)
             @ [tool_message call (''Unknown tool: '' @ fc_name (tc_function call))]
       \<and> trace (snd (snd (run_call E sid call cfg)))
           = trace (snd cfg)
             @ [Sent sid (ToolCallStart (tc_id call) (call_label E call)
                            (fc_arguments (tc_function call))),
                Sent sid (ToolCallUpdate (tc_id call) Failed
                            (''Unknown tool: '' @ fc_name (tc_function call)))]
       \<and> run_calls E sid (call # calls) cfg
           = run_calls E sid calls (snd (run_call E sid call cfg))"
    if u: "map_of (tools (fst cfg)) (fc_name (tc_function call)) = None"
  proof -
    have u1: "map_of (tools (fst ?cfg1)) (fc_name (tc_function call)) = None"
      using u by (simp add: send_keeps)
    note d = dispatch_unknown [OF assms u1, of sid]
    have ok: "fst (run_call E sid call cfg) = None" using d(1) by (simp add: rc)
    from d ok run_calls_next [OF ok] show ?thesis by (simp add: rc send_keeps)
  qed
  have raising: "fst (run_call E sid call cfg) = None
       \<and> messages (fst (snd (run_call E sid call cfg)))
           = messages (fst cfg) @ [tool_message call (''Tool error: '' @ exc)]
       \<and> trace (snd (snd (run_call E sid call cfg)))
           = trace (snd cfg)
             @ [Sent sid (ToolCallStart (tc_id call) (call_label E call)
                            (fc_arguments (tc_function call))),
                Execute (fc_name (tc_function call)) (fc_arguments (tc_function call)),
                Sent sid (ToolCallUpdate (tc_id call) Failed (''Tool error: '' @ exc))]
       \<and> run_calls E sid (call # calls) cfg
           = run_calls E sid calls (snd (run_call E sid call cfg))"
    if k: "map_of (tools (fst cfg)) (fc_name (tc_function call)) = Some tool"
      and x: "fst (execute tool (fc_arguments (tc_function call)) (world (snd ?cfg1)))
                = RaisesException exc"
  proof -
    have k1: "map_of (tools (fst ?cfg1)) (fc_name (tc_function call)) = Some tool"
      using k by (simp add: send_keeps)
    note d = dispatch_raises [OF assms k1 x, of sid]
    have ok: "fst (run_call E sid call cfg) = None" using d(1) by (simp add: rc)
    from d ok run_calls_next [OF ok] show ?thesis by (simp add: rc send_keeps)
  qed
  have goes_on: "fst (step E sid cfg) = Continue
       \<and> run_steps E sid (Suc n) cfg = run_steps E sid n (snd (step E sid cfg))"
    if "\<not> cancelled (fst cfg)" "fst (call_model E sid cfg) = Inr response"
       "\<not> cancelled (fst (snd (call_model E sid cfg)))"
       "resp_tool_calls response = Some (call # calls)"
       "\<forall>entry \<in> set (tools (fst cfg)). raises_exceptions_only (snd entry)"
  proof -
    have "fst (step E sid cfg) = Continue"
      by (rule step_delivered [OF that(1-4) _ assms that(5)]) simp
    then show ?thesis by (simp add: case_prod_beta)
  qed
  from unknown raising goes_on show ?thesis by blast
qed

theorem failed_calls_contained_witness:
  "delivers (scripted_env False [''nope'', ''broken''])
   \<and> map_of (tools (fst (demo_config live_client 2))) ''nope'' = None
   \<and> map_of (tools (fst (demo_config live_client 2))) ''broken'' = Some broken_tool
   \<and> fst (execute broken_tool [(''a'', JInt 1)] 0) = RaisesException ''boom''
   \<and> fst (call_model (scripted_env False [''nope'', ''broken'']) ''sess-0''
            (demo_config live_client 2))
       = Inr (demo_response [''nope'', ''broken''])
   \<and> resp_tool_calls (demo_response [''nope'', ''broken''])
       = Some [demo_call ''nope'', demo_call ''broken'']
   \<and> step (scripted_env False [''nope'', ''broken'']) ''sess-0'' (demo_config live_client 2)
       = (Continue,
          snd (run_calls (scripted_env False [''nope'', ''broken'']) ''sess-0''
                 [demo_call ''nope'', demo_call ''broken'']
                 (snd (emit_response (scripted_env False [''nope'', ''broken'']) ''sess-0''
                         (demo_response [''nope'', ''broken''])
                         (snd (call_model (scripted_env False [''nope'', ''broken''])
                                 ''sess-0'' (demo_config live_client 2)))))))
   \<and> messages (fst (snd (step (scripted_env False [''nope'', ''broken'']) ''sess-0''
                             (demo_config live_client 2))))
       = [assistant_message (demo_response [''nope'', ''broken'']),
          tool_message (demo_call ''nope'') ''Unknown tool: nope'',
          tool_message (demo_call ''broken'') ''Tool error: boom'']"
proof -
  let ?E = "scripted_env False [''nope'', ''broken'']"
  let ?cfg = "demo_config live_client 2"
  let ?r = "demo_response [''nope'', ''broken'']"
  let ?cfg2 = "snd (emit_response ?E ''sess-0'' ?r (snd (call_model ?E ''sess-0'' ?cfg)))"
  let ?cfg3 = "snd (run_call ?E ''sess-0'' (demo_call ''nope'') ?cfg2)"
  have dl: "delivers ?E" by (rule scripted_delivers)
  have a: "\<not> cancelled (fst ?cfg)" by (rule demo_not_cancelled)
  have b: "fst (call_model ?E ''sess-0'' ?cfg) = Inr ?r"
    by (rule scripted_call_model(1) [OF demo_llm(1)])
  have c: "\<not> cancelled (fst (snd (call_model ?E ''sess-0'' ?cfg)))"
    using a by (simp add: call_model_quiet [OF scripted_quiet])
  have d: "resp_tool_calls ?r = Some (demo_call ''nope'' # [demo_call ''broken''])"
    by (simp add: demo_response_def)
  have m2: "messages (fst ?cfg2) = [assistant_message ?r]"
    by (simp add: emit_response_messages emit_response_delivered [OF dl] call_model_keeps
          demo_start)
  have t2: "map_of (tools (fst ?cfg2)) (fc_name (tc_function (demo_call ''nope''))) = None"
    by (simp add: emit_response_keeps call_model_keeps demo_call_sel demo_tools)
  note first = failed_calls_contained [OF dl, where cfg = ?cfg2 and sid = "''sess-0''"
      and call = "demo_call ''nope''" and calls = "[demo_call ''broken'']"]
  have t3: "map_of (tools (fst ?cfg3)) (fc_name (tc_function (demo_call ''broken'')))
              = Some broken_tool"
    by (simp add: run_call_keeps emit_response_keeps call_model_keeps demo_call_sel demo_tools)
  note second = failed_calls_contained [OF dl, where cfg = ?cfg3 and sid = "''sess-0''"
      and call = "demo_call ''broken''" and calls = "[]" and tool = broken_tool
      and exc = "''boom''"]
  note whole = failed_calls_contained [OF dl, where cfg = ?cfg and sid = "''sess-0''"
      and call = "demo_call ''nope''" and calls = "[demo_call ''broken'']" and response = ?r]
  have go: "fst (step ?E ''sess-0'' ?cfg) = Continue"
    using whole a b c d demo_tools_catchable by blast
  then have nr: "\<not> raises (fst (step ?E ''sess-0'' ?cfg))" by simp
  have st: "step ?E ''sess-0'' ?cfg
              = (Continue, snd (run_calls ?E ''sess-0''
                                  (demo_call ''nope'' # [demo_call ''broken'']) ?cfg2))"
    by (rule step_not_raising(3) [OF a b c d _ nr]) simp
  have one: "messages (fst ?cfg3)
               = messages (fst ?cfg2) @ [tool_message (demo_call ''nope'') ''Unknown tool: nope'']"
    and next1: "run_calls ?E ''sess-0'' (demo_call ''nope'' # [demo_call ''broken'']) ?cfg2
                  = run_calls ?E ''sess-0'' [demo_call ''broken''] ?cfg3"
    using first t2 by (simp_all add: demo_call_sel)
  have two: "messages (fst (snd (run_call ?E ''sess-0'' (demo_call ''broken'') ?cfg3)))
               = messages (fst ?cfg3) @ [tool_message (demo_call ''broken'') ''Tool error: boom'']"
    and next2: "run_calls ?E ''sess-0'' [demo_call ''broken''] ?cfg3
                  = run_calls ?E ''sess-0'' []
                      (snd (run_call ?E ''sess-0'' (demo_call ''broken'') ?cfg3))"
    using second t3 broken_raises by (simp_all add: demo_call_sel)
  have final: "messages (fst (snd (step ?E ''sess-0'' ?cfg)))
       = [assistant_message ?r,
          tool_message (demo_call ''nope'') ''Unknown tool: nope'',
          tool_message (demo_call ''broken'') ''Tool error: boom'']"
    by (simp add: st next1 next2 two one m2 del: run_calls.simps(2))
  from dl b d st final broken_raises show ?thesis
    by (simp add: demo_tools del: run_calls.simps(2))
qed

text \<open>
  Not every failure of a tool is caught: the handler of line 178 is \<open>except Exception\<close>,
  and a tool that raises outside \<open>Exception\<close> (a cancellation of the task, an exit of
  the interpreter) gets no failed result and no tool message, and the exception ends the
  turn and the prompt with no stop reason.
\<close>

theorem interrupted_tool_is_not_caught:
  "map_of (tools (fst (interrupted_config live_client 2))) ''interrupted''
     = Some interrupted_tool
   \<and> fst (execute interrupted_tool [(''a'', JInt 1)] 0) = RaisesBaseException ''interrupted''
   \<and> fst (run_call (scripted_env False [''interrupted'']) ''sess-1''
            (demo_call ''interrupted'') (interrupted_config live_client 2))
       = Some (ToolRaised ''interrupted'')
   \<and> messages (fst (snd (run_call (scripted_env False [''interrupted'']) ''sess-1''
                             (demo_call ''interrupted'') (interrupted_config live_client 2))))
       = []
   \<and> fst (prompt (scripted_env False [''interrupted'']) ''sess-1'' [TextBlock ''go'']
            (demo_agent live_client 2))
       = Inl (ToolRaised ''interrupted'')"
proof -
  let ?F = "scripted_env False [''interrupted'']"
  let ?cfi = "interrupted_config live_client 2"
  let ?start = "((interrupted_session 2)
                   \<lparr>cancelled := False,
                    messages := messages (interrupted_session 2)
                                @ [Message User (Text ''go'')]\<rparr>,
                 demo_agent live_client 2)"
  have t: "map_of (tools (fst ?cfi)) (fc_name (tc_function (demo_call ''interrupted'')))
             = Some interrupted_tool"
    by (simp add: demo_call_sel demo_tools)
  note one = run_call_interrupted [OF scripted_delivers t interrupted_raises,
      where sid = "''sess-1''"]
  have a: "\<not> cancelled (fst ?start)" by simp
  have l: "llm (snd ?start) = live_client" by (simp add: demo_agent_def)
  have r: "fst (call_model ?F ''sess-1'' ?start) = Inr (demo_response [''interrupted''])"
    by (rule scripted_call_model(1) [OF l])
  have c: "\<not> cancelled (fst (snd (call_model ?F ''sess-1'' ?start)))"
    by (simp add: call_model_quiet [OF scripted_quiet])
  have d: "resp_tool_calls (demo_response [''interrupted'']) = Some (demo_call ''interrupted'' # [])"
    by (simp add: demo_response_def)
  have t': "map_of (tools (fst ?start)) (fc_name (tc_function (demo_call ''interrupted'')))
              = Some interrupted_tool"
    by (simp add: demo_call_sel interrupted_session_def)
  have stop: "fst (step ?F ''sess-1'' ?start) = Raise (ToolRaised ''interrupted'')"
    by (rule step_interrupted(1) [OF a r c d scripted_delivers t' interrupted_raises])
  have known: "sessions (demo_agent live_client 2) ''sess-1'' = Some (interrupted_session 2)"
    by (simp add: demo_agent_def)
  have bound: "max_steps (interrupted_session 2) = Suc (Suc 0)"
    by (simp add: interrupted_session_def)
  have "fst (prompt ?F ''sess-1'' [TextBlock ''go''] (demo_agent live_client 2))
          = fst (run_steps ?F ''sess-1'' (Suc (Suc 0)) ?start)"
    by (simp add: prompt_def known run_turn_def bound acp_to_text_def Let_def case_prod_beta
          del: run_steps.simps)
  also have "\<dots> = Inl (ToolRaised ''interrupted'')"
    using stop by (simp add: case_prod_beta)
  finally have turn: "fst (prompt ?F ''sess-1'' [TextBlock ''go''] (demo_agent live_client 2))
                        = Inl (ToolRaised ''interrupted'')" .
  from one turn interrupted_raises show ?thesis
    by (simp add: demo_tools demo_start demo_call_sel)
qed

section \<open>The label of a tool call\<close>

text \<open>
  Claim C9, as amended. The first update of a dispatched tool call is the started update,
  and its label is the tool name followed, in parentheses, by the first three arguments
  and no more, each as \<open>key=value\<close>, joined by a comma and a space; a value's rendering
  of more than 48 characters is cut to its first 45 followed by three dots, a shorter one
  is kept, so that no value takes more than 48 characters; the keys are rendered in full,
  and the label is at most 153 characters longer than the tool name and the first three
  keys together.
\<close>

theorem tool_call_label_limits:
  "(\<exists>rest. trace (snd (snd (run_call E sid call cfg)))
            = trace (snd cfg)
              @ Sent sid (ToolCallStart (tc_id call) (call_label E call)
                            (fc_arguments (tc_function call))) # rest)
   \<and> call_label E call
       = fc_name (tc_function call) @ ''(''
         @ join '', '' (map (format_arg (repr E)) (take 3 (fc_arguments (tc_function call))))
         @ '')''
   \<and> format_arg (repr E) (key, v) = key @ ''='' @ shorten (repr E v)
   \<and> length (shorten t) \<le> 48
   \<and> (length t \<le> 48 \<longrightarrow> shorten t = t)
   \<and> (48 < length t \<longrightarrow> shorten t = take 45 t @ ''...'')
   \<and> length (call_label E call)
       \<le> length (fc_name (tc_function call))
         + sum_list (map (\<lambda>item. length (fst item)) (take 3 (fc_arguments (tc_function call))))
         + 153"
  using run_call_started [of E sid call cfg]
    format_tool_args_take [of "repr E" "fc_arguments (tc_function call)"]
    length_format_tool_args [of "repr E" "fc_arguments (tc_function call)"]
  by (simp add: call_label_summary format_arg_def shorten_def)

theorem tool_call_label_limits_witness:
  "\<forall>rf. call_label (python_env rf) long_call
           = ''write_file(path='' @ [CHR 0x27] @ ''notes/today.txt'' @ [CHR 0x27]
             @ '', content='' @ [CHR 0x27]
             @ ''xxxxxxxxxxxxxxxxxxxxxxxxxxxxxxxxxxxxxxxxxxxx..., mode=-2)''
        \<and> (\<exists>rest. trace (snd (snd (run_call (python_env rf) ''sess-0'' long_call
                                       (demo_config live_client 2))))
                    = Sent ''sess-0''
                        (ToolCallStart ''c1'' (call_label (python_env rf) long_call)
                           (fc_arguments (tc_function long_call))) # rest)
        \<and> 48 < length (py_repr rf (JStr ''xxxxxxxxxxxxxxxxxxxxxxxxxxxxxxxxxxxxxxxxxxxxxxxxxx''))
        \<and> shorten (py_repr rf (JStr ''xxxxxxxxxxxxxxxxxxxxxxxxxxxxxxxxxxxxxxxxxxxxxxxxxx''))
            = [CHR 0x27] @ ''xxxxxxxxxxxxxxxxxxxxxxxxxxxxxxxxxxxxxxxxxxxx...''
        \<and> length (py_repr rf (JInt (- 2))) \<le> 48
        \<and> shorten (py_repr rf (JInt (- 2))) = ''-2''"
proof
  fix rf
  let ?E = "python_env rf"
  let ?long = "py_repr rf (JStr ''xxxxxxxxxxxxxxxxxxxxxxxxxxxxxxxxxxxxxxxxxxxxxxxxxx'')"
  let ?short = "py_repr rf (JInt (- 2))"
  have r: "repr ?E = py_repr rf" by (simp add: python_env_def)
  have long: "48 < length ?long" by (simp add: python_reprs)
  have short: "length ?short \<le> 48" by (simp add: python_reprs)
  have empty: "trace (snd (demo_config live_client 2)) = []"
    by (simp add: demo_config_def demo_agent_def)
  note a = tool_call_label_limits [where E = ?E and call = long_call and sid = "''sess-0''"
      and cfg = "demo_config live_client 2" and t = ?long and key = "''mode''"
      and v = "JInt (- 2)"]
  note b = tool_call_label_limits [where E = ?E and call = long_call and sid = "''sess-0''"
      and cfg = "demo_config live_client 2" and t = ?short and key = "''mode''"
      and v = "JInt (- 2)"]
  have label: "call_label ?E long_call
           = ''write_file(path='' @ [CHR 0x27] @ ''notes/today.txt'' @ [CHR 0x27]
             @ '', content='' @ [CHR 0x27]
             @ ''xxxxxxxxxxxxxxxxxxxxxxxxxxxxxxxxxxxxxxxxxxxx..., mode=-2)''"
    using a [THEN conjunct2, THEN conjunct1]
    by (simp add: r long_call_def ToolCall_sel format_arg_def shorten_def python_reprs)
  have cut: "shorten ?long = [CHR 0x27] @ ''xxxxxxxxxxxxxxxxxxxxxxxxxxxxxxxxxxxxxxxxxxxx...''"
    using a long by (simp add: python_reprs)
  have kept: "shorten ?short = ''-2''"
    using b short by (simp add: python_reprs)
  have event: "\<exists>rest. trace (snd (snd (run_call ?E ''sess-0'' long_call
                                        (demo_config live_client 2))))
                    = Sent ''sess-0''
                        (ToolCallStart ''c1'' (call_label ?E long_call)
                           (fc_arguments (tc_function long_call))) # rest"
    using a [THEN conjunct1] by (simp add: empty long_call_def ToolCall_sel)
  from label event long cut short kept
  show "call_label ?E long_call
           = ''write_file(path='' @ [CHR 0x27] @ ''notes/today.txt'' @ [CHR 0x27]
             @ '', content='' @ [CHR 0x27]
             @ ''xxxxxxxxxxxxxxxxxxxxxxxxxxxxxxxxxxxxxxxxxxxx..., mode=-2)''
        \<and> (\<exists>rest. trace (snd (snd (run_call ?E ''sess-0'' long_call
                                       (demo_config live_client 2))))
                    = Sent ''sess-0''
                        (ToolCallStart ''c1'' (call_label ?E long_call)
                           (fc_arguments (tc_function long_call))) # rest)
        \<and> 48 < length ?long
        \<and> shorten ?long = [CHR 0x27] @ ''xxxxxxxxxxxxxxxxxxxxxxxxxxxxxxxxxxxxxxxxxxxx...''
        \<and> length ?short \<le> 48
        \<and> shorten ?short = ''-2''"
    by blast
qed

text \<open>
  No bound holds for every argument mapping, whatever the rendering of values: a long
  key makes a summary longer than any given bound.
\<close>

theorem format_tool_args_unbounded:
  "\<not> (\<exists>r bound. \<forall>args. length (format_tool_args r args) \<le> bound)"
proof
  assume "\<exists>r bound. \<forall>args. length (format_tool_args r args) \<le> bound"
  then obtain r bound where all: "\<forall>args. length (format_tool_args r args) \<le> bound" by blast
  have "length (format_tool_args r [(replicate (Suc bound) CHR ''k'', JNull)]) > bound"
    by (simp add: format_tool_args_def format_arg_def Let_def)
  with all show False by (metis not_less)
qed

section \<open>Serializing and parsing an assistant message\<close>



section \<open>The checks on a response body\<close>




section \<open>The offline calculator scenario\<close>

text \<open>
  Claim C8. In offline mode the prompt \<open>calculate 123 + 456\<close> on a session with tools
  gets one tool call to the calculator with the arguments \<open>operation = add\<close>, \<open>a = 123\<close>,
  \<open>b = 456\<close>. The source does not then end the turn: the calculator branch of the
  substitute does not look for a tool result, as the branches for \<open>write_file\<close> and
  \<open>bash\<close> do, so the next model call, with the tool result in the conversation, gets
  the same tool call again, and a turn with step bound 3 makes three model calls and
  ends with \<open>max_turn_requests\<close>.
\<close>

theorem calculator_prompt_exhausts_steps:
  "fst (prompt (scripted_env False [''calculator'']) ''sess-0''
          [TextBlock ''calculate 123 + 456''] (demo_agent offline_client 3))
     = Inr MaxTurnRequests
   \<and> model_calls (trace (snd (prompt (scripted_env False [''calculator'']) ''sess-0''
                                 [TextBlock ''calculate 123 + 456'']
                                 (demo_agent offline_client 3)))) = 3
   \<and> fst (fake_response offline_client [Message User (Text ''calculate 123 + 456'')]
             (Some [to_schema calculator_tool]))
       = tool_use_response [ToolCall ''stub-1'' ''calculator'' calculator_arguments]
   \<and> fst (fake_response (offline_client\<lparr>fake_call_counter := 1\<rparr>)
             [Message User (Text ''calculate 123 + 456''),
              assistant_message
                (tool_use_response [ToolCall ''stub-1'' ''calculator'' calculator_arguments]),
              tool_message (ToolCall ''stub-1'' ''calculator'' calculator_arguments) ''579'']
             (Some [to_schema calculator_tool]))
       = tool_use_response [ToolCall ''stub-2'' ''calculator'' calculator_arguments]"
proof -
  let ?E = "scripted_env False [''calculator'']"
  let ?run = "run_steps ?E ''sess-0'' 3 (calculator_prompt 3)"
  have "fst ?run = Inr MaxTurnRequests
        \<and> model_calls (trace (snd (snd ?run)))
            = model_calls (trace (snd (calculator_prompt 3))) + 3"
    by (rule run_steps_busy [OF calculator_prompt_busy])
  moreover have "model_calls (trace (snd (calculator_prompt 3))) = 0"
    by (simp add: calculator_prompt_def demo_agent_def model_calls_def)
  ultimately have turn:
    "fst (prompt ?E ''sess-0'' [TextBlock ''calculate 123 + 456'']
            (demo_agent offline_client 3)) = Inr MaxTurnRequests"
    "model_calls (trace (snd (prompt ?E ''sess-0''
                                [TextBlock ''calculate 123 + 456'']
                                (demo_agent offline_client 3)))) = 3"
    by (simp_all add: prompt_calculator del: run_steps.simps)
  have first: "fst (fake_response offline_client [Message User (Text ''calculate 123 + 456'')]
                      (Some [to_schema calculator_tool]))
       = tool_use_response [ToolCall ''stub-1'' ''calculator'' calculator_arguments]"
    by (subst offline_calculator)
       (simp_all add: last_user_text_def Message_def offline_client_def str_nat.simps)
  have second: "fst (fake_response (offline_client\<lparr>fake_call_counter := 1\<rparr>)
             [Message User (Text ''calculate 123 + 456''),
              assistant_message
                (tool_use_response [ToolCall ''stub-1'' ''calculator'' calculator_arguments]),
              tool_message (ToolCall ''stub-1'' ''calculator'' calculator_arguments) ''579'']
             (Some [to_schema calculator_tool]))
       = tool_use_response [ToolCall ''stub-2'' ''calculator'' calculator_arguments]"
    by (subst offline_calculator)
       (simp_all add: last_user_text_def Message_def assistant_message_def tool_message_def
          offline_client_def str_nat.simps)
  from turn first second show ?thesis by simp
qed

end
